theory Spec2Isabelle
  imports Main "HOL-Library.Word"
begin

unbundle bit_operations_syntax

section \<open>Basic types\<close>

text \<open>
  Go's \<^verbatim>\<open>byte\<close> and \<^verbatim>\<open>uint16\<close> are machine words: arithmetic wraps around.
  \<^verbatim>\<open>KeyID\<close>, \<^verbatim>\<open>TouchPointID\<close>, \<^verbatim>\<open>DialID\<close>, \<^verbatim>\<open>imageFormat\<close> and
  \<^verbatim>\<open>imageTransform\<close> are all declared as \<^verbatim>\<open>byte\<close>. Go's \<^verbatim>\<open>int\<close> (pixel
  coordinates) is modelled as an unbounded integer.
\<close>

type_synonym byte = "8 word"
type_synonym uint16 = "16 word"
type_synonym uint32 = "32 word"

text \<open>
  Errors are values. The sentinel errors of \<^verbatim>\<open>streamdeck.go\<close> keep their names; an error
  built in place with \<^verbatim>\<open>errors.New\<close> or \<^verbatim>\<open>fmt.Errorf\<close> has a constructor of its own,
  and the runtime panics of Go (index or slice bounds out of range, closing a nil or a closed
  channel, a negative image size) are constructors too, so that no failure is hidden.
\<close>

datatype error =
    ErrDeviceFailedToClose
  | ErrDeviceFailedToOpen
  | ErrDeviceInfoBarNotSupported
  | ErrDeviceIsClosed
  | ErrDeviceIsOpen
  | ErrDeviceTouchPointNotSupported
  | ErrDeviceTouchStripNotSupported
  | ErrDialHandlerInvalid
  | ErrDialInvalid
  | ErrGetFeatureReportFailed
  | ErrGetInputReportFailed
  | ErrImageInvalid
  | ErrKeyHandlerInvalid
  | ErrKeyInvalid
  | ErrSetFeatureReportFailed
  | ErrSetOutputReportFailed
  | ErrTouchPointHandlerInvalid
  | ErrTouchPointInvalid
  | ErrTouchStripHandlerInvalid
  | ErrTouchStripImageRectangle
  | ErrNotElgatoDevice uint16
    \<comment> \<open>\<^verbatim>\<open>ErrDeviceEnumerationFailed\<close> wrapped as "not an Elgato device: vid"\<close>
  | ErrDeviceNotSupported uint16 uint16
    \<comment> \<open>\<^verbatim>\<open>ErrDeviceEnumerationFailed\<close> wrapped as "device not supported: vid:pid"\<close>
  | ErrUnexpectedReportId byte
    \<comment> \<open>"streamdeck: got unexpected report id: %d"\<close>
  | ErrImageUpdateCallbackNotSet
    \<comment> \<open>"image update callback not set"\<close>
  | ErrInvalidKeyImageFormat
    \<comment> \<open>"invalid key image format"\<close>
  | ErrCallbackNil
    \<comment> \<open>"streamdeck: ForEach... callback is nil"\<close>
  | ErrExternal nat
    \<comment> \<open>an error of an external collaborator (image codec, file system)\<close>
  | PanicIndexOutOfRange
  | PanicSliceBounds
  | PanicCloseOfNilChannel
  | PanicCloseOfClosedChannel
  | PanicNegativeDimensions
  | PanicNilDereference

subsection \<open>Slices\<close>

text \<open>
  A byte slice is a list. \<^verbatim>\<open>s[i]\<close> panics out of range, and so does \<^verbatim>\<open>s[lo:hi]\<close>
  unless \<^verbatim>\<open>lo \<le> hi \<le> cap(s)\<close>; the capacity of a slice is taken to be its length.
\<close>

definition goIndex :: "'a list \<Rightarrow> nat \<Rightarrow> error + 'a" where
  "goIndex s i = (if i < length s then Inr (s ! i) else Inl PanicIndexOutOfRange)"

definition goSlice :: "'a list \<Rightarrow> nat \<Rightarrow> nat \<Rightarrow> error + 'a list" where
  "goSlice s lo hi =
     (if lo \<le> hi \<and> hi \<le> length s then Inr (take (hi - lo) (drop lo s))
      else Inl PanicSliceBounds)"

text \<open>
  \<^verbatim>\<open>pl := make([]byte, n); pl[0] = v0; pl[1] = v1; ...\<close>: a zeroed buffer whose leading
  bytes are assigned in order; the first assignment past the end panics.
\<close>

definition makeReport :: "nat \<Rightarrow> byte list \<Rightarrow> error + byte list" where
  "makeReport n vs =
     (if length vs \<le> n then Inr (vs @ replicate (n - length vs) 0)
      else Inl PanicIndexOutOfRange)"

text \<open>
  A sequence of element writes \<^verbatim>\<open>s[i] = v\<close>, in order; a write out of range panics.
\<close>

fun applyWrites :: "byte list \<Rightarrow> (nat \<times> byte) list \<Rightarrow> error + byte list" where
  "applyWrites s [] = Inr s"
| "applyWrites s ((i, v) # ws) =
     (if i < length s then applyWrites (s[i := v]) ws else Inl PanicIndexOutOfRange)"

section \<open>The transport\<close>

text \<open>
  The HID transport (package \<^verbatim>\<open>usbhid\<close>) is an external collaborator. Its state is the
  open flag and the log of the reports written; what the hardware answers is a parameter of
  the model: whether the n-th write fails, and what a feature report read returns.
\<close>

record usbdev =
  vendorId :: uint16
  productId :: uint16
  serialNumber :: string
  product :: string
  isOpen :: bool
  outputReportLength :: uint16
  featureReportLength :: uint16
  outputReports :: "(byte \<times> byte list) list"
  featureReports :: "(byte \<times> byte list) list"
  outputFails :: "nat \<Rightarrow> bool"
  featureFails :: "nat \<Rightarrow> bool"
  featureInput :: "byte \<Rightarrow> error + byte list"
  openFails :: bool
  closeFails :: bool

definition SetOutputReport :: "usbdev \<Rightarrow> byte \<Rightarrow> byte list \<Rightarrow> error + usbdev" where
  "SetOutputReport dev rid payload =
     (if \<not> isOpen dev then Inl ErrDeviceIsClosed
      else if outputFails dev (length (outputReports dev)) then Inl ErrSetOutputReportFailed
      else Inr (dev\<lparr>outputReports := outputReports dev @ [(rid, payload)]\<rparr>))"

definition SetFeatureReport :: "usbdev \<Rightarrow> byte \<Rightarrow> byte list \<Rightarrow> error + usbdev" where
  "SetFeatureReport dev rid payload =
     (if \<not> isOpen dev then Inl ErrDeviceIsClosed
      else if featureFails dev (length (featureReports dev)) then Inl ErrSetFeatureReportFailed
      else Inr (dev\<lparr>featureReports := featureReports dev @ [(rid, payload)]\<rparr>))"

definition GetFeatureReport :: "usbdev \<Rightarrow> byte \<Rightarrow> error + byte list" where
  "GetFeatureReport dev rid =
     (if \<not> isOpen dev then Inl ErrDeviceIsClosed else featureInput dev rid)"

definition usb_Open :: "usbdev \<Rightarrow> error + usbdev" where
  "usb_Open dev =
     (if isOpen dev then Inl ErrDeviceIsOpen
      else if openFails dev then Inl ErrDeviceFailedToOpen
      else Inr (dev\<lparr>isOpen := True\<rparr>))"

definition usb_Close :: "usbdev \<Rightarrow> error + usbdev" where
  "usb_Close dev =
     (if \<not> isOpen dev then Inl ErrDeviceIsClosed
      else if closeFails dev then Inl ErrDeviceFailedToClose
      else Inr (dev\<lparr>isOpen := False\<rparr>))"

section \<open>Protocol framer: \<^verbatim>\<open>imageSend\<close> (image.go)\<close>

text \<open>
  The header-update callback receives the header slice and writes some of its elements;
  it is modelled by the list of writes it performs, which may depend on the header it sees.
  The header is mutated in place, so the next page starts from the header the previous
  callback left.

  The loop \<^verbatim>\<open>for last == 0\<close> need not terminate (a report capacity equal to the header
  length sends empty pages for ever), so it is a partial function: \<open>None\<close> is divergence.
  \<^verbatim>\<open>start\<close> and \<^verbatim>\<open>end\<close> are \<^verbatim>\<open>uint16\<close>, \<^verbatim>\<open>page\<close> is a \<^verbatim>\<open>byte\<close>, and
  \<^verbatim>\<open>len(imgData)\<close>, \<^verbatim>\<open>len(hdr)\<close> and \<^verbatim>\<open>len(payload)\<close> are converted to
  \<^verbatim>\<open>uint16\<close> before use, as in the source.
\<close>

type_synonym updateCb = "byte list \<Rightarrow> byte \<Rightarrow> byte \<Rightarrow> uint16 \<Rightarrow> (nat \<times> byte) list"

partial_function (option) imageSend_loop ::
  "usbdev \<Rightarrow> byte \<Rightarrow> byte list \<Rightarrow> byte list \<Rightarrow> updateCb \<Rightarrow> uint16 \<Rightarrow> byte
     \<Rightarrow> (error + usbdev) option"
where
  "imageSend_loop dev rid hdr imgData updateCb start page =
     (let end0 = start + outputReportLength dev - of_nat (length hdr);
          l = (of_nat (length imgData) :: uint16);
          last = (if end0 \<ge> l then 1 else 0 :: byte);
          end1 = (if end0 \<ge> l then l else end0)
      in case goSlice imgData (unat start) (unat end1) of
           Inl e \<Rightarrow> Some (Inl e)
         | Inr to_send \<Rightarrow>
             (case applyWrites hdr (updateCb hdr page last (of_nat (length to_send))) of
                Inl e \<Rightarrow> Some (Inl e)
              | Inr hdr' \<Rightarrow>
                  (let payload = hdr' @ to_send;
                       payload' = payload @ replicate
                          (unat (outputReportLength dev - of_nat (length payload))) 0
                   in case SetOutputReport dev rid payload' of
                        Inl e \<Rightarrow> Some (Inl e)
                      | Inr dev' \<Rightarrow>
                          if last = 0
                          then imageSend_loop dev' rid hdr' imgData updateCb
                                 (start + outputReportLength dev' - of_nat (length hdr'))
                                 (page + 1)
                          else Some (Inr dev'))))"

definition imageSend ::
  "usbdev \<Rightarrow> byte \<Rightarrow> byte list \<Rightarrow> byte list \<Rightarrow> updateCb option \<Rightarrow> (error + usbdev) option"
where
  "imageSend dev rid hdr imgData updateCb =
     (case updateCb of
        None \<Rightarrow> Some (Inl ErrImageUpdateCallbackNotSet)
      | Some cb \<Rightarrow> imageSend_loop dev rid hdr imgData cb 0 0)"

section \<open>Image codec: \<^verbatim>\<open>genImage\<close> (image.go)\<close>

text \<open>
  \<^verbatim>\<open>image.Point\<close> and \<^verbatim>\<open>image.Rectangle\<close>. \<^verbatim>\<open>image.Rect\<close> swaps its coordinates
  where needed so that the result is well formed.
\<close>

datatype point = Point (ptX: int) (ptY: int)

datatype rectangle = Rectangle (rmin: point) (rmax: point)

definition Rect :: "int \<Rightarrow> int \<Rightarrow> int \<Rightarrow> int \<Rightarrow> rectangle" where
  "Rect x0 y0 x1 y1 =
     Rectangle (Point (if x0 > x1 then x1 else x0) (if y0 > y1 then y1 else y0))
               (Point (if x0 > x1 then x0 else x1) (if y0 > y1 then y0 else y1))"

definition Dx :: "rectangle \<Rightarrow> int" where
  "Dx r = ptX (rmax r) - ptX (rmin r)"

definition Dy :: "rectangle \<Rightarrow> int" where
  "Dy r = ptY (rmax r) - ptY (rmin r)"

definition rect_Empty :: "rectangle \<Rightarrow> bool" where
  "rect_Empty r \<longleftrightarrow> ptX (rmin r) \<ge> ptX (rmax r) \<or> ptY (rmin r) \<ge> ptY (rmax r)"

definition point_In :: "int \<Rightarrow> int \<Rightarrow> rectangle \<Rightarrow> bool" where
  "point_In x y r \<longleftrightarrow>
     ptX (rmin r) \<le> x \<and> x < ptX (rmax r) \<and> ptY (rmin r) \<le> y \<and> y < ptY (rmax r)"

definition rect_In :: "rectangle \<Rightarrow> rectangle \<Rightarrow> bool" where
  "rect_In r s \<longleftrightarrow>
     (if rect_Empty r then True
      else ptX (rmin s) \<le> ptX (rmin r) \<and> ptX (rmax r) \<le> ptX (rmax s) \<and>
           ptY (rmin s) \<le> ptY (rmin r) \<and> ptY (rmax r) \<le> ptY (rmax s))"

text \<open>
  A \<^verbatim>\<open>color.Color\<close> is what its \<^verbatim>\<open>RGBA()\<close> method returns: four \<^verbatim>\<open>uint32\<close>.
  A \<^verbatim>\<open>color.RGBA\<close> is four bytes, and its \<^verbatim>\<open>RGBA()\<close> widens every channel
  \<^verbatim>\<open>c\<close> to \<^verbatim>\<open>c | c << 8\<close>.
\<close>

type_synonym color = "uint32 \<times> uint32 \<times> uint32 \<times> uint32"

datatype rgba = RGBA (chR: byte) (chG: byte) (chB: byte) (chA: byte)

definition widen :: "byte \<Rightarrow> uint32" where
  "widen c = (ucast c) OR push_bit 8 (ucast c)"

definition rgba_RGBA :: "rgba \<Rightarrow> color" where
  "rgba_RGBA c = (widen (chR c), widen (chG c), widen (chB c), widen (chA c))"

definition color_Black :: color where
  "color_Black = (0, 0, 0, 0xffff)"

text \<open>
  A source image (\<^verbatim>\<open>image.Image\<close>): its bounds and its pixels; \<open>None\<close> is the nil
  interface. \<^verbatim>\<open>imageColor\<close> is the uniform image of one colour.
\<close>

record image =
  bounds :: rectangle
  at :: "int \<Rightarrow> int \<Rightarrow> color"

definition imageColor :: "color \<Rightarrow> rectangle \<Rightarrow> image" where
  "imageColor c b = \<lparr>bounds = b, at = (\<lambda>x y. c)\<rparr>"

text \<open>
  An \<^verbatim>\<open>*image.RGBA\<close> canvas. \<^verbatim>\<open>image.NewRGBA\<close> panics on a negative size and
  starts from zeroed pixels; \<^verbatim>\<open>Set\<close> ignores a point outside the rectangle and \<^verbatim>\<open>At\<close>
  returns the zero colour there.
\<close>

record canvas =
  cRect :: rectangle
  cPix :: "int \<times> int \<Rightarrow> rgba"

definition NewRGBA :: "rectangle \<Rightarrow> error + canvas" where
  "NewRGBA r =
     (if Dx r < 0 \<or> Dy r < 0 then Inl PanicNegativeDimensions
      else Inr \<lparr>cRect = r, cPix = (\<lambda>p. RGBA 0 0 0 0)\<rparr>)"

definition rgbaSet :: "canvas \<Rightarrow> int \<Rightarrow> int \<Rightarrow> rgba \<Rightarrow> canvas" where
  "rgbaSet c x y v =
     (if point_In x y (cRect c) then c\<lparr>cPix := (cPix c)((x, y) := v)\<rparr> else c)"

definition rgbaAt :: "canvas \<Rightarrow> int \<Rightarrow> int \<Rightarrow> rgba" where
  "rgbaAt c x y = (if point_In x y (cRect c) then cPix c (x, y) else RGBA 0 0 0 0)"

definition imageFormatBMP :: byte where "imageFormatBMP = 0"
definition imageFormatJPEG :: byte where "imageFormatJPEG = 1"

definition imageTransformFlipVertical :: byte where "imageTransformFlipVertical = 1"
definition imageTransformFlipHorizontal :: byte where "imageTransformFlipHorizontal = 2"
definition imageTransformRotate90 :: byte where "imageTransformRotate90 = 4"

text \<open>
  The external image libraries are parameters: the pixels that \<^verbatim>\<open>draw.Copy\<close> and
  \<^verbatim>\<open>draw.BiLinear.Scale\<close> leave on the canvas whose rectangle is given, and the two
  encoders. \<^verbatim>\<open>getScaledRect\<close> computes in \<^verbatim>\<open>float64\<close>; the image pipeline only hands its
  result to the scaler, so it is a parameter as well.
\<close>

record imglib =
  drawCopy :: "rectangle \<Rightarrow> image \<Rightarrow> (int \<times> int \<Rightarrow> rgba)"
  drawScale :: "rectangle \<Rightarrow> rectangle \<Rightarrow> image \<Rightarrow> (int \<times> int \<Rightarrow> rgba)"
  getScaledRect :: "rectangle \<Rightarrow> rectangle \<Rightarrow> rectangle"
  bmpEncode :: "canvas \<Rightarrow> error + byte list"
  jpegEncode :: "canvas \<Rightarrow> error + byte list"
  imageDecode :: "byte list \<Rightarrow> error + image"
  osOpen :: "string \<Rightarrow> error + byte list"

text \<open>
  The body of the pixel loop up to \<^verbatim>\<open>final.Set\<close>: the destination of the pixel at
  \<open>(x, y)\<close>, or the error of a rotation on a canvas that is not square.
\<close>

definition transformXY ::
  "byte \<Rightarrow> rectangle \<Rightarrow> rectangle \<Rightarrow> int \<Rightarrow> int \<Rightarrow> error + (int \<times> int)" where
  "transformXY transform sb rect x y =
     (let xd = (if transform AND imageTransformFlipHorizontal = imageTransformFlipHorizontal
                then Dx sb - 1 - x else x);
          yd = (if transform AND imageTransformFlipVertical = imageTransformFlipVertical
                then Dy sb - 1 - y else y)
      in if transform AND imageTransformRotate90 = imageTransformRotate90
         then (if Dx rect \<noteq> Dy rect then Inl ErrImageInvalid
               else Inr (yd, Dx sb - 1 - xd))
         else Inr (xd, yd))"

text \<open>
  For the bitmap format the pixel is rebuilt from the low bytes of its widened channels,
  with full opacity.
\<close>

definition pixelFor :: "byte \<Rightarrow> rgba \<Rightarrow> rgba" where
  "pixelFor ifmt c =
     (if ifmt = imageFormatBMP
      then (case rgba_RGBA c of (r, g, b, a) \<Rightarrow> RGBA (ucast r) (ucast g) (ucast b) 0xff)
      else c)"

fun genImage_rows ::
  "byte \<Rightarrow> byte \<Rightarrow> rectangle \<Rightarrow> canvas \<Rightarrow> int \<Rightarrow> int list \<Rightarrow> canvas \<Rightarrow> error + canvas"
where
  "genImage_rows ifmt transform rect scaled x [] final = Inr final"
| "genImage_rows ifmt transform rect scaled x (y # ys) final =
     (case transformXY transform (cRect scaled) rect x y of
        Inl e \<Rightarrow> Inl e
      | Inr d \<Rightarrow>
          genImage_rows ifmt transform rect scaled x ys
            (rgbaSet final (fst d) (snd d) (pixelFor ifmt (rgbaAt scaled x y))))"

fun genImage_cols ::
  "byte \<Rightarrow> byte \<Rightarrow> rectangle \<Rightarrow> canvas \<Rightarrow> int list \<Rightarrow> canvas \<Rightarrow> error + canvas"
where
  "genImage_cols ifmt transform rect scaled [] final = Inr final"
| "genImage_cols ifmt transform rect scaled (x # xs) final =
     (case genImage_rows ifmt transform rect scaled x
             [ptY (rmin (cRect scaled)) .. ptY (rmax (cRect scaled)) - 1] final of
        Inl e \<Rightarrow> Inl e
      | Inr final' \<Rightarrow> genImage_cols ifmt transform rect scaled xs final')"

text \<open>The canvas \<^verbatim>\<open>scaled\<close>: the source copied, or scaled into the letterbox.\<close>

definition genImage_scaled :: "imglib \<Rightarrow> image \<Rightarrow> rectangle \<Rightarrow> error + canvas" where
  "genImage_scaled lib img rect =
     (case NewRGBA rect of
        Inl e \<Rightarrow> Inl e
      | Inr blank \<Rightarrow>
          Inr (blank\<lparr>cPix :=
                 (if Dx (bounds img) = Dx rect \<and> Dy (bounds img) = Dy rect
                  then drawCopy lib rect img
                  else drawScale lib rect (getScaledRect lib (bounds img) rect) img)\<rparr>))"

text \<open>The canvas \<^verbatim>\<open>final\<close>, as it is handed to the encoder.\<close>

definition genImage_final ::
  "imglib \<Rightarrow> image option \<Rightarrow> rectangle \<Rightarrow> byte \<Rightarrow> byte \<Rightarrow> error + canvas" where
  "genImage_final lib img rect ifmt transform =
     (case img of
        None \<Rightarrow> Inl ErrImageInvalid
      | Some im \<Rightarrow>
          (case genImage_scaled lib im rect of
             Inl e \<Rightarrow> Inl e
           | Inr scaled \<Rightarrow>
               (case NewRGBA rect of
                  Inl e \<Rightarrow> Inl e
                | Inr final \<Rightarrow>
                    genImage_cols ifmt transform rect scaled
                      [ptX (rmin (cRect scaled)) .. ptX (rmax (cRect scaled)) - 1] final)))"

definition genImage ::
  "imglib \<Rightarrow> image option \<Rightarrow> rectangle \<Rightarrow> byte \<Rightarrow> byte \<Rightarrow> error + byte list" where
  "genImage lib img rect ifmt transform =
     (case genImage_final lib img rect ifmt transform of
        Inl e \<Rightarrow> Inl e
      | Inr final \<Rightarrow>
          if ifmt = imageFormatBMP then bmpEncode lib final
          else if ifmt = imageFormatJPEG then jpegEncode lib final
          else Inl ErrInvalidKeyImageFormat)"

section \<open>Model registry (models.go)\<close>

definition elgatoVendorID :: uint16 where
  "elgatoVendorID = 0x0fd9"

definition KEY_1 :: byte where "KEY_1 = 1"
definition TOUCH_POINT_1 :: byte where "TOUCH_POINT_1 = 1"
definition DIAL_1 :: byte where "DIAL_1 = 1"

text \<open>
  The descriptor of a model. A function field that the code tests against nil is an
  option; \<^verbatim>\<open>id\<close> is named \<open>model_id\<close>.
\<close>

record model =
  model_id :: string
  keyStart :: byte
  keyCount :: byte
  keyImageRect :: rectangle
  keyImageFormat :: byte
  keyImageTransform :: byte
  keyImageSend :: "usbdev \<Rightarrow> byte \<Rightarrow> byte list \<Rightarrow> (error + usbdev) option"
  infoBarImageRect :: rectangle
  infoBarImageFormat :: byte
  infoBarImageTransform :: byte
  infoBarImageSend :: "(usbdev \<Rightarrow> byte list \<Rightarrow> (error + usbdev) option) option"
  touchPointStart :: byte
  touchPointCount :: byte
  touchPointColorSend :: "(usbdev \<Rightarrow> byte \<Rightarrow> color \<Rightarrow> error + usbdev) option"
  dialStart :: byte
  dialCount :: byte
  touchStripImageRect :: rectangle
  touchStripImageFormat :: byte
  touchStripImageTransform :: byte
  touchStripImageSend ::
    "(usbdev \<Rightarrow> byte list \<Rightarrow> rectangle \<Rightarrow> (error + usbdev) option) option"
  reset :: "usbdev \<Rightarrow> error + usbdev"
  brightness :: "usbdev \<Rightarrow> byte \<Rightarrow> error + usbdev"
  firmwareVersion :: "usbdev \<Rightarrow> error + byte list"

definition zeroRect :: rectangle where
  "zeroRect = Rectangle (Point 0 0) (Point 0 0)"

text \<open>
  The closures of the registry. Every header is made with a fixed length that covers the
  indices written, so \<^verbatim>\<open>hdr[i] = v\<close> is a list update.
\<close>

definition mini_updateCb :: updateCb where
  "mini_updateCb hdr page lastp sz = [(1, page), (3, lastp)]"

definition mini_keyImageSend :: "usbdev \<Rightarrow> byte \<Rightarrow> byte list \<Rightarrow> (error + usbdev) option" where
  "mini_keyImageSend dev key imgData =
     imageSend dev 2 ((replicate 15 0)[0 := 1, 4 := 1 + (key - KEY_1)]) imgData
       (Some mini_updateCb)"

definition mk2_updateCb :: updateCb where
  "mk2_updateCb hdr page lastp sz =
     [(2, lastp), (3, ucast sz), (4, ucast (drop_bit 8 sz)), (5, page)]"

definition mk2_keyImageSend :: "usbdev \<Rightarrow> byte \<Rightarrow> byte list \<Rightarrow> (error + usbdev) option" where
  "mk2_keyImageSend dev key imgData =
     imageSend dev 2 ((replicate 7 0)[0 := 7, 1 := key - KEY_1]) imgData (Some mk2_updateCb)"

definition neo_infoBarImageSend :: "usbdev \<Rightarrow> byte list \<Rightarrow> (error + usbdev) option" where
  "neo_infoBarImageSend dev imgData =
     imageSend dev 2 ((replicate 7 0)[0 := 11]) imgData (Some mk2_updateCb)"

definition plus_updateCb :: updateCb where
  "plus_updateCb hdr page lastp sz =
     [(9, lastp), (10, page), (11, 0), (12, ucast sz), (13, ucast (drop_bit 8 sz))]"

definition plus_touchStripImageSend ::
  "usbdev \<Rightarrow> byte list \<Rightarrow> rectangle \<Rightarrow> (error + usbdev) option" where
  "plus_touchStripImageSend dev imgData rect =
     imageSend dev 2
       ((replicate 15 0)
          [0 := 12,
           1 := of_int (ptX (rmin rect)), 2 := of_int (ptX (rmin rect) div 256),
           3 := of_int (ptY (rmin rect)), 4 := of_int (ptY (rmin rect) div 256),
           5 := of_int (Dx rect), 6 := of_int (Dx rect div 256),
           7 := of_int (Dy rect), 8 := of_int (Dy rect div 256)])
       imgData (Some plus_updateCb)"

definition neo_touchPointColorSend :: "usbdev \<Rightarrow> byte \<Rightarrow> color \<Rightarrow> error + usbdev" where
  "neo_touchPointColorSend dev tp c =
     (case c of (r, g, b, a) \<Rightarrow>
        (case makeReport (unat (featureReportLength dev))
                [0x06, tp - TOUCH_POINT_1 + 8, ucast r, ucast g, ucast b] of
           Inl e \<Rightarrow> Inl e
         | Inr pl \<Rightarrow> SetFeatureReport dev 3 pl))"

definition mini_reset :: "usbdev \<Rightarrow> error + usbdev" where
  "mini_reset dev =
     (case makeReport (unat (featureReportLength dev)) [0x63] of
        Inl e \<Rightarrow> Inl e
      | Inr pl \<Rightarrow> SetFeatureReport dev 11 pl)"

definition mini_brightness :: "usbdev \<Rightarrow> byte \<Rightarrow> error + usbdev" where
  "mini_brightness dev perc =
     (case makeReport (unat (featureReportLength dev)) [0x55, 0xaa, 0xd1, 0x01, perc] of
        Inl e \<Rightarrow> Inl e
      | Inr pl \<Rightarrow> SetFeatureReport dev 5 pl)"

text \<open>
  \<^verbatim>\<open>bytes.Cut(buf[n:], []byte{0})\<close>: the bytes from offset \<open>n\<close> up to the first NUL.
\<close>

definition firmwareAt :: "nat \<Rightarrow> byte \<Rightarrow> usbdev \<Rightarrow> error + byte list" where
  "firmwareAt n rid dev =
     (case GetFeatureReport dev rid of
        Inl e \<Rightarrow> Inl e
      | Inr buf \<Rightarrow>
          (case goSlice buf n (length buf) of
             Inl e \<Rightarrow> Inl e
           | Inr rest \<Rightarrow> Inr (takeWhile (\<lambda>b. b \<noteq> 0) rest)))"

definition mini_firmwareVersion :: "usbdev \<Rightarrow> error + byte list" where
  "mini_firmwareVersion = firmwareAt 4 4"

definition mk2_reset :: "usbdev \<Rightarrow> error + usbdev" where
  "mk2_reset dev =
     (case makeReport (unat (featureReportLength dev)) [0x02] of
        Inl e \<Rightarrow> Inl e
      | Inr pl \<Rightarrow> SetFeatureReport dev 3 pl)"

definition mk2_brightness :: "usbdev \<Rightarrow> byte \<Rightarrow> error + usbdev" where
  "mk2_brightness dev perc =
     (case makeReport (unat (featureReportLength dev)) [0x08, perc] of
        Inl e \<Rightarrow> Inl e
      | Inr pl \<Rightarrow> SetFeatureReport dev 3 pl)"

definition mk2_firmwareVersion :: "usbdev \<Rightarrow> error + byte list" where
  "mk2_firmwareVersion = firmwareAt 5 5"

definition model_mini :: model where
  "model_mini = \<lparr>
     model_id = ''mini'', keyStart = 0, keyCount = 6,
     keyImageRect = Rect 0 0 80 80, keyImageFormat = imageFormatBMP,
     keyImageTransform = imageTransformRotate90 OR imageTransformFlipHorizontal,
     keyImageSend = mini_keyImageSend,
     infoBarImageRect = zeroRect, infoBarImageFormat = 0, infoBarImageTransform = 0,
     infoBarImageSend = None,
     touchPointStart = 0, touchPointCount = 0, touchPointColorSend = None,
     dialStart = 0, dialCount = 0,
     touchStripImageRect = zeroRect, touchStripImageFormat = 0,
     touchStripImageTransform = 0, touchStripImageSend = None,
     reset = mini_reset, brightness = mini_brightness,
     firmwareVersion = mini_firmwareVersion \<rparr>"

definition model_mk2 :: model where
  "model_mk2 = \<lparr>
     model_id = ''mk2'', keyStart = 3, keyCount = 15,
     keyImageRect = Rect 0 0 72 72, keyImageFormat = imageFormatJPEG,
     keyImageTransform = imageTransformFlipHorizontal OR imageTransformFlipVertical,
     keyImageSend = mk2_keyImageSend,
     infoBarImageRect = zeroRect, infoBarImageFormat = 0, infoBarImageTransform = 0,
     infoBarImageSend = None,
     touchPointStart = 0, touchPointCount = 0, touchPointColorSend = None,
     dialStart = 0, dialCount = 0,
     touchStripImageRect = zeroRect, touchStripImageFormat = 0,
     touchStripImageTransform = 0, touchStripImageSend = None,
     reset = mk2_reset, brightness = mk2_brightness,
     firmwareVersion = mk2_firmwareVersion \<rparr>"

definition model_plus :: model where
  "model_plus = \<lparr>
     model_id = ''plus'', keyStart = 3, keyCount = 8,
     keyImageRect = Rect 0 0 120 120, keyImageFormat = imageFormatJPEG,
     keyImageTransform = 0,
     keyImageSend = mk2_keyImageSend,
     infoBarImageRect = zeroRect, infoBarImageFormat = 0, infoBarImageTransform = 0,
     infoBarImageSend = None,
     touchPointStart = 0, touchPointCount = 0, touchPointColorSend = None,
     dialStart = 4, dialCount = 4,
     touchStripImageRect = Rect 0 0 800 100, touchStripImageFormat = imageFormatJPEG,
     touchStripImageTransform = 0, touchStripImageSend = Some plus_touchStripImageSend,
     reset = mk2_reset, brightness = mk2_brightness,
     firmwareVersion = mk2_firmwareVersion \<rparr>"

definition model_neo :: model where
  "model_neo = \<lparr>
     model_id = ''neo'', keyStart = 3, keyCount = 8,
     keyImageRect = Rect 0 0 96 96, keyImageFormat = imageFormatJPEG,
     keyImageTransform = imageTransformFlipHorizontal OR imageTransformFlipVertical,
     keyImageSend = mk2_keyImageSend,
     infoBarImageRect = Rect 0 0 248 58, infoBarImageFormat = imageFormatJPEG,
     infoBarImageTransform = imageTransformFlipHorizontal OR imageTransformFlipVertical,
     infoBarImageSend = Some neo_infoBarImageSend,
     touchPointStart = 11, touchPointCount = 2,
     touchPointColorSend = Some neo_touchPointColorSend,
     dialStart = 0, dialCount = 0,
     touchStripImageRect = zeroRect, touchStripImageFormat = 0,
     touchStripImageTransform = 0, touchStripImageSend = None,
     reset = mk2_reset, brightness = mk2_brightness,
     firmwareVersion = mk2_firmwareVersion \<rparr>"

text \<open>The two maps of models.go, keyed by product id.\<close>

definition models :: "uint16 \<Rightarrow> model option" where
  "models pid =
     (if pid = 0x0063 then Some model_mini
      else if pid = 0x0080 then Some model_mk2
      else if pid = 0x0084 then Some model_plus
      else if pid = 0x009a then Some model_neo
      else None)"

definition modelAliases :: "uint16 \<Rightarrow> uint16 option" where
  "modelAliases pid = (if pid = 0x006d then Some 0x0080 else None)"

definition getModel :: "usbdev \<Rightarrow> error + model" where
  "getModel dev =
     (if vendorId dev \<noteq> elgatoVendorID then Inl (ErrNotElgatoDevice (vendorId dev))
      else
        (let pid = (case modelAliases (productId dev) of
                      Some ma \<Rightarrow> ma
                    | None \<Rightarrow> productId dev)
         in case models pid of
              None \<Rightarrow> Inl (ErrDeviceNotSupported (vendorId dev) (productId dev))
            | Some md \<Rightarrow> Inr md))"

definition enumerateFunc :: "usbdev \<Rightarrow> bool" where
  "enumerateFunc dev =
     (if vendorId dev \<noteq> elgatoVendorID then False
      else
        (let pid = (case modelAliases (productId dev) of
                      Some ma \<Rightarrow> ma
                    | None \<Rightarrow> productId dev)
         in models pid \<noteq> None))"

section \<open>Input engine (input.go)\<close>

text \<open>
  A handler is a Go function value; the engine never looks inside it, so it is an opaque
  identifier. What \<^verbatim>\<open>go func(...)\<close> starts is recorded as a launch: the handler and
  the arguments it is started with.

  A \<^verbatim>\<open>time.Time\<close> is an instant in nanoseconds, 0 being the zero value
  (\<^verbatim>\<open>IsZero\<close>); \<^verbatim>\<open>Sub\<close> saturates at the bounds of \<^verbatim>\<open>time.Duration\<close>
  (an \<^verbatim>\<open>int64\<close>).
\<close>

type_synonym handler = nat
type_synonym time = int

definition time_Sub :: "time \<Rightarrow> time \<Rightarrow> int" where
  "time_Sub t u =
     (if t - u > 2 ^ 63 - 1 then 2 ^ 63 - 1
      else if t - u < - (2 ^ 63) then - (2 ^ 63)
      else t - u)"

datatype chan = ChanNil | ChanOpen | ChanClosed

definition chan_close :: "chan \<Rightarrow> error + chan" where
  "chan_close c =
     (case c of
        ChanNil \<Rightarrow> Inl PanicCloseOfNilChannel
      | ChanClosed \<Rightarrow> Inl PanicCloseOfClosedChannel
      | ChanOpen \<Rightarrow> Inr ChanClosed)"

datatype Key = Key (key_id: byte) (key_handlers: "handler list")

datatype TouchPoint = TouchPoint (tp_id: byte) (tp_handlers: "handler list")

datatype Dial =
  Dial (dial_id: byte) (switchHandlers: "handler list") (rotateHandlers: "handler list")

datatype touchStrip =
  TouchStrip (touchHandlers: "handler list") (swipeHandlers: "handler list")

definition TOUCH_STRIP_TOUCH_TYPE_SHORT :: byte where "TOUCH_STRIP_TOUCH_TYPE_SHORT = 1"
definition TOUCH_STRIP_TOUCH_TYPE_LONG :: byte where "TOUCH_STRIP_TOUCH_TYPE_LONG = 2"

datatype launch =
    KeyLaunch byte handler
  | TouchPointLaunch byte handler
  | DialSwitchLaunch byte handler
  | DialRotateLaunch byte byte handler
  | TouchLaunch byte point handler
  | SwipeLaunch point point handler

text \<open>
  The slot. The back pointers (\<^verbatim>\<open>device\<close>, \<^verbatim>\<open>Key.input\<close>) and the mutex are left out:
  the model is sequential.
\<close>

record input =
  channel :: chan
  pressed :: time
  released :: time
  duration :: int
  key :: "Key option"
  tp :: "TouchPoint option"
  dial :: "Dial option"
  touchStrip :: "touchStrip option"

definition emptyInput :: input where
  "emptyInput = \<lparr>channel = ChanNil, pressed = 0, released = 0, duration = 0,
                  key = None, tp = None, dial = None, touchStrip = None\<rparr>"

text \<open>
  \<^verbatim>\<open>for i := KEY_1; i < KeyID(numKeys+1); i++\<close> and
  \<^verbatim>\<open>for i := TOUCH_POINT_1; i < TOUCH_POINT_1+TouchPointID(numTouchPoints); i++\<close>:
  the bound is computed in a byte.
\<close>

definition newInputs :: "byte \<Rightarrow> byte \<Rightarrow> input list" where
  "newInputs numKeys numTouchPoints =
     map (\<lambda>i. emptyInput\<lparr>key := Some (Key (of_nat i) [])\<rparr>)
         [unat KEY_1 ..< unat (numKeys + 1)] @
     map (\<lambda>i. emptyInput\<lparr>tp := Some (TouchPoint (of_nat i) [])\<rparr>)
         [unat TOUCH_POINT_1 ..< unat (TOUCH_POINT_1 + numTouchPoints)]"

definition newDialInputs :: "byte \<Rightarrow> input list" where
  "newDialInputs numDials =
     map (\<lambda>i. emptyInput\<lparr>dial := Some (Dial (of_nat i) [] [])\<rparr>)
         [unat DIAL_1 ..< unat (numDials + 1)]"

definition newTouchStripInput :: input where
  "newTouchStripInput = emptyInput\<lparr>touchStrip := Some (TouchStrip [] [])\<rparr>"

definition press :: "input \<Rightarrow> time \<Rightarrow> input \<times> launch list" where
  "press inp t =
     (inp\<lparr>channel := ChanOpen, pressed := t, released := 0, duration := 0\<rparr>,
      (case key inp of
         None \<Rightarrow> []
       | Some k \<Rightarrow> map (KeyLaunch (key_id k)) (key_handlers k)) @
      (case tp inp of
         None \<Rightarrow> []
       | Some p \<Rightarrow> map (TouchPointLaunch (tp_id p)) (tp_handlers p)) @
      (case dial inp of
         None \<Rightarrow> []
       | Some di \<Rightarrow> map (DialSwitchLaunch (dial_id di)) (switchHandlers di)))"

definition release :: "input \<Rightarrow> time \<Rightarrow> error + input" where
  "release inp t =
     (if released inp \<noteq> 0 then Inr inp
      else
        (let in1 = inp\<lparr>released := t\<rparr>;
             in2 = in1\<lparr>duration := time_Sub (released in1) (pressed in1)\<rparr>;
             in3 = in2\<lparr>pressed := 0\<rparr>
         in case chan_close (channel in3) of
              Inl e \<Rightarrow> Inl e
            | Inr c \<Rightarrow> Inr (in3\<lparr>channel := c\<rparr>)))"

definition rotate :: "input \<Rightarrow> byte \<Rightarrow> launch list" where
  "rotate inp delta =
     (case dial inp of
        None \<Rightarrow> []
      | Some di \<Rightarrow> map (DialRotateLaunch (dial_id di) delta) (rotateHandlers di))"

definition touch :: "input \<Rightarrow> byte \<Rightarrow> point \<Rightarrow> launch list" where
  "touch inp t p =
     (case touchStrip inp of
        None \<Rightarrow> []
      | Some ts \<Rightarrow> map (TouchLaunch t p) (touchHandlers ts))"

definition swipe :: "input \<Rightarrow> point \<Rightarrow> point \<Rightarrow> launch list" where
  "swipe inp origin destination =
     (case touchStrip inp of
        None \<Rightarrow> []
      | Some ts \<Rightarrow> map (SwipeLaunch origin destination) (swipeHandlers ts))"

text \<open>The \<^verbatim>\<open>add...Handler\<close> methods: a nil handler is ignored.\<close>

definition input_addKeyHandler :: "input \<Rightarrow> handler option \<Rightarrow> input" where
  "input_addKeyHandler inp h =
     (case (key inp, h) of
        (Some k, Some f) \<Rightarrow> inp\<lparr>key := Some (Key (key_id k) (key_handlers k @ [f]))\<rparr>
      | _ \<Rightarrow> inp)"

definition input_addTouchPointHandler :: "input \<Rightarrow> handler option \<Rightarrow> input" where
  "input_addTouchPointHandler inp h =
     (case (tp inp, h) of
        (Some p, Some f) \<Rightarrow> inp\<lparr>tp := Some (TouchPoint (tp_id p) (tp_handlers p @ [f]))\<rparr>
      | _ \<Rightarrow> inp)"

definition input_addSwitchHandler :: "input \<Rightarrow> handler option \<Rightarrow> input" where
  "input_addSwitchHandler inp h =
     (case (dial inp, h) of
        (Some di, Some f) \<Rightarrow>
          inp\<lparr>dial := Some (Dial (dial_id di) (switchHandlers di @ [f]) (rotateHandlers di))\<rparr>
      | _ \<Rightarrow> inp)"

definition input_addRotateHandler :: "input \<Rightarrow> handler option \<Rightarrow> input" where
  "input_addRotateHandler inp h =
     (case (dial inp, h) of
        (Some di, Some f) \<Rightarrow>
          inp\<lparr>dial := Some (Dial (dial_id di) (switchHandlers di) (rotateHandlers di @ [f]))\<rparr>
      | _ \<Rightarrow> inp)"

definition input_addTouchHandler :: "input \<Rightarrow> handler option \<Rightarrow> input" where
  "input_addTouchHandler inp h =
     (case (touchStrip inp, h) of
        (Some ts, Some f) \<Rightarrow>
          inp\<lparr>touchStrip := Some (TouchStrip (touchHandlers ts @ [f]) (swipeHandlers ts))\<rparr>
      | _ \<Rightarrow> inp)"

definition input_addSwipeHandler :: "input \<Rightarrow> handler option \<Rightarrow> input" where
  "input_addSwipeHandler inp h =
     (case (touchStrip inp, h) of
        (Some ts, Some f) \<Rightarrow>
          inp\<lparr>touchStrip := Some (TouchStrip (touchHandlers ts) (swipeHandlers ts @ [f]))\<rparr>
      | _ \<Rightarrow> inp)"

section \<open>Device facade (streamdeck.go)\<close>

text \<open>
  A nil slice is \<open>None\<close>. A method that returns \<^verbatim>\<open>error\<close> and changes the device
  returns the error or the new device; \<^verbatim>\<open>wrapErr\<close> only prefixes the message, which
  \<^verbatim>\<open>errors.Is\<close> does not see, and is left out. \<^verbatim>\<open>open\<close> is named \<open>opened\<close>.
\<close>

record device =
  dev :: usbdev
  model :: model
  inputs :: "input list option"
  dialInputs :: "input list option"
  touchStripInput :: "input option"
  keyStates :: "byte list"
  dialStates :: "byte list"
  listen :: chan
  opened :: bool

definition newDevice :: "usbdev \<Rightarrow> model \<Rightarrow> device" where
  "newDevice u m = \<lparr>dev = u, model = m, inputs = None, dialInputs = None,
                     touchStripInput = None, keyStates = [], dialStates = [],
                     listen = ChanNil, opened = False\<rparr>"

text \<open>
  \<^verbatim>\<open>Enumerate\<close> and \<^verbatim>\<open>GetDevice\<close>; the argument is what the bus enumeration of the
  transport returns before it is filtered.
\<close>

fun newDevices :: "usbdev list \<Rightarrow> error + device list" where
  "newDevices [] = Inr []"
| "newDevices (u # us) =
     (case getModel u of
        Inl e \<Rightarrow> Inl e
      | Inr m \<Rightarrow>
          (case newDevices us of
             Inl e \<Rightarrow> Inl e
           | Inr ds \<Rightarrow> Inr (newDevice u m # ds)))"

definition Enumerate :: "error + usbdev list \<Rightarrow> error + device list" where
  "Enumerate bus =
     (case bus of
        Inl e \<Rightarrow> Inl e
      | Inr us \<Rightarrow> newDevices (filter enumerateFunc us))"

definition IsOpen :: "device \<Rightarrow> bool" where
  "IsOpen d \<longleftrightarrow> opened d \<and> isOpen (dev d)"

definition Open :: "device \<Rightarrow> error + device" where
  "Open d =
     (if IsOpen d then Inl ErrDeviceIsOpen
      else
        (case usb_Open (dev d) of
           Inl e \<Rightarrow> Inl e
         | Inr u \<Rightarrow> Inr (d\<lparr>dev := u, opened := True, listen := ChanOpen\<rparr>)))"

definition validateOpen :: "device \<Rightarrow> error option" where
  "validateOpen d = (if \<not> IsOpen d then Some ErrDeviceIsClosed else None)"

definition validateKey :: "device \<Rightarrow> byte \<Rightarrow> error option" where
  "validateKey d k =
     (if k < KEY_1 \<or> k \<ge> KEY_1 + keyCount (model d) then Some ErrKeyInvalid else None)"

definition validateTouchPoint :: "device \<Rightarrow> byte \<Rightarrow> error option" where
  "validateTouchPoint d p =
     (if touchPointColorSend (model d) = None \<or> touchPointCount (model d) = 0
      then Some ErrDeviceTouchPointNotSupported
      else if p < TOUCH_POINT_1 \<or> p \<ge> TOUCH_POINT_1 + touchPointCount (model d)
      then Some ErrTouchPointInvalid
      else None)"

definition validateInfoBar :: "device \<Rightarrow> error option" where
  "validateInfoBar d =
     (if infoBarImageSend (model d) = None then Some ErrDeviceInfoBarNotSupported else None)"

definition validateDial :: "device \<Rightarrow> byte \<Rightarrow> error option" where
  "validateDial d di =
     (if di < DIAL_1 \<or> di \<ge> DIAL_1 + dialCount (model d) then Some ErrDialInvalid else None)"

definition validateTouchStrip :: "device \<Rightarrow> error option" where
  "validateTouchStrip d =
     (if touchStripImageSend (model d) = None then Some ErrDeviceTouchStripNotSupported
      else None)"

subsection \<open>Handler registration\<close>

text \<open>
  \<^verbatim>\<open>for _, in := range ...\<close>: the first slot that matches takes the handler; \<open>None\<close>
  when no slot matches.
\<close>

fun addHandler_loop ::
  "(input \<Rightarrow> bool) \<Rightarrow> (input \<Rightarrow> input) \<Rightarrow> input list \<Rightarrow> input list option" where
  "addHandler_loop isit add [] = None"
| "addHandler_loop isit add (inp # rest) =
     (if isit inp then Some (add inp # rest)
      else map_option ((#) inp) (addHandler_loop isit add rest))"

definition AddKeyHandler :: "device \<Rightarrow> byte \<Rightarrow> handler option \<Rightarrow> error + device" where
  "AddKeyHandler d k fn =
     (case validateKey d k of
        Some e \<Rightarrow> Inl e
      | None \<Rightarrow>
          if fn = None then Inl ErrKeyHandlerInvalid
          else
            (let ins = (case inputs d of
                          None \<Rightarrow> newInputs (keyCount (model d)) (touchPointCount (model d))
                        | Some l \<Rightarrow> l)
             in case addHandler_loop
                       (\<lambda>inp. case key inp of None \<Rightarrow> False | Some x \<Rightarrow> key_id x = k)
                       (\<lambda>inp. input_addKeyHandler inp fn) ins of
                  None \<Rightarrow> Inl ErrKeyInvalid
                | Some ins' \<Rightarrow> Inr (d\<lparr>inputs := Some ins'\<rparr>)))"

definition AddTouchPointHandler :: "device \<Rightarrow> byte \<Rightarrow> handler option \<Rightarrow> error + device" where
  "AddTouchPointHandler d p fn =
     (case validateTouchPoint d p of
        Some e \<Rightarrow> Inl e
      | None \<Rightarrow>
          if fn = None then Inl ErrTouchPointHandlerInvalid
          else
            (let ins = (case inputs d of
                          None \<Rightarrow> newInputs (keyCount (model d)) (touchPointCount (model d))
                        | Some l \<Rightarrow> l)
             in case addHandler_loop
                       (\<lambda>inp. case tp inp of None \<Rightarrow> False | Some x \<Rightarrow> tp_id x = p)
                       (\<lambda>inp. input_addTouchPointHandler inp fn) ins of
                  None \<Rightarrow> Inl ErrTouchPointInvalid
                | Some ins' \<Rightarrow> Inr (d\<lparr>inputs := Some ins'\<rparr>)))"

definition AddDialSwitchHandler :: "device \<Rightarrow> byte \<Rightarrow> handler option \<Rightarrow> error + device" where
  "AddDialSwitchHandler d di fn =
     (case validateDial d di of
        Some e \<Rightarrow> Inl e
      | None \<Rightarrow>
          if fn = None then Inl ErrDialHandlerInvalid
          else
            (let ins = (case dialInputs d of
                          None \<Rightarrow> newDialInputs (dialCount (model d))
                        | Some l \<Rightarrow> l)
             in case addHandler_loop
                       (\<lambda>inp. case dial inp of None \<Rightarrow> False | Some x \<Rightarrow> dial_id x = di)
                       (\<lambda>inp. input_addSwitchHandler inp fn) ins of
                  None \<Rightarrow> Inl ErrDialInvalid
                | Some ins' \<Rightarrow> Inr (d\<lparr>dialInputs := Some ins'\<rparr>)))"

definition AddDialRotateHandler :: "device \<Rightarrow> byte \<Rightarrow> handler option \<Rightarrow> error + device" where
  "AddDialRotateHandler d di fn =
     (case validateDial d di of
        Some e \<Rightarrow> Inl e
      | None \<Rightarrow>
          if fn = None then Inl ErrDialHandlerInvalid
          else
            (let ins = (case dialInputs d of
                          None \<Rightarrow> newDialInputs (dialCount (model d))
                        | Some l \<Rightarrow> l)
             in case addHandler_loop
                       (\<lambda>inp. case dial inp of None \<Rightarrow> False | Some x \<Rightarrow> dial_id x = di)
                       (\<lambda>inp. input_addRotateHandler inp fn) ins of
                  None \<Rightarrow> Inl ErrDialInvalid
                | Some ins' \<Rightarrow> Inr (d\<lparr>dialInputs := Some ins'\<rparr>)))"

definition AddTouchStripTouchHandler :: "device \<Rightarrow> handler option \<Rightarrow> error + device" where
  "AddTouchStripTouchHandler d fn =
     (case validateTouchStrip d of
        Some e \<Rightarrow> Inl e
      | None \<Rightarrow>
          if fn = None then Inl ErrTouchStripHandlerInvalid
          else
            (let tsi = (case touchStripInput d of
                          None \<Rightarrow> newTouchStripInput
                        | Some i \<Rightarrow> i)
             in Inr (d\<lparr>touchStripInput := Some (input_addTouchHandler tsi fn)\<rparr>)))"

definition AddTouchStripSwipeHandler :: "device \<Rightarrow> handler option \<Rightarrow> error + device" where
  "AddTouchStripSwipeHandler d fn =
     (case validateTouchStrip d of
        Some e \<Rightarrow> Inl e
      | None \<Rightarrow>
          if fn = None then Inl ErrTouchStripHandlerInvalid
          else
            (let tsi = (case touchStripInput d of
                          None \<Rightarrow> newTouchStripInput
                        | Some i \<Rightarrow> i)
             in Inr (d\<lparr>touchStripInput := Some (input_addSwipeHandler tsi fn)\<rparr>)))"

subsection \<open>Getters, reset, brightness, iteration\<close>

definition GetModelName :: "device \<Rightarrow> string" where
  "GetModelName d = product (dev d)"

definition GetModelID :: "device \<Rightarrow> string" where
  "GetModelID d = model_id (model d)"

definition GetSerialNumber :: "device \<Rightarrow> string" where
  "GetSerialNumber d = serialNumber (dev d)"

definition GetKeyCount :: "device \<Rightarrow> byte" where
  "GetKeyCount d = keyCount (model d)"

definition GetTouchPointCount :: "device \<Rightarrow> byte" where
  "GetTouchPointCount d = touchPointCount (model d)"

definition GetDialCount :: "device \<Rightarrow> byte" where
  "GetDialCount d = dialCount (model d)"

definition GetInfoBarSupported :: "device \<Rightarrow> bool" where
  "GetInfoBarSupported d \<longleftrightarrow> infoBarImageSend (model d) \<noteq> None"

definition GetTouchStripSupported :: "device \<Rightarrow> bool" where
  "GetTouchStripSupported d \<longleftrightarrow> touchStripImageSend (model d) \<noteq> None"

definition GetFirmwareVersion :: "device \<Rightarrow> error + byte list" where
  "GetFirmwareVersion d =
     (case validateOpen d of
        Some e \<Rightarrow> Inl e
      | None \<Rightarrow> firmwareVersion (model d) (dev d))"

definition Reset :: "device \<Rightarrow> error + device" where
  "Reset d =
     (case validateOpen d of
        Some e \<Rightarrow> Inl e
      | None \<Rightarrow>
          (case reset (model d) (dev d) of
             Inl e \<Rightarrow> Inl e
           | Inr u \<Rightarrow>
               (case usb_Close u of
                  Inl e \<Rightarrow> Inl e
                | Inr u' \<Rightarrow> Inr (d\<lparr>dev := u'\<rparr>))))"

definition SetBrightness :: "device \<Rightarrow> byte \<Rightarrow> error + device" where
  "SetBrightness d perc =
     (case validateOpen d of
        Some e \<Rightarrow> Inl e
      | None \<Rightarrow>
          (case brightness (model d) (dev d) (if perc > 100 then 100 else perc) of
             Inl e \<Rightarrow> Inl e
           | Inr u \<Rightarrow> Inr (d\<lparr>dev := u\<rparr>)))"

text \<open>
  \<^verbatim>\<open>ForEachKey\<close>, \<^verbatim>\<open>ForEachTouchPoint\<close>, \<^verbatim>\<open>ForEachDial\<close>: the callback may change
  a state, which is threaded through; the first error stops the loop. The bound
  \<^verbatim>\<open>KEY_1+KeyID(keyCount)\<close> is computed in a byte.
\<close>

fun forEachId ::
  "(byte \<Rightarrow> 's \<Rightarrow> (error + 's) option) \<Rightarrow> byte list \<Rightarrow> 's \<Rightarrow> (error + 's) option" where
  "forEachId cb [] st = Some (Inr st)"
| "forEachId cb (i # is) st =
     (case cb i st of
        None \<Rightarrow> None
      | Some (Inl e) \<Rightarrow> Some (Inl e)
      | Some (Inr st') \<Rightarrow> forEachId cb is st')"

definition ForEachKey ::
  "device \<Rightarrow> (byte \<Rightarrow> 's \<Rightarrow> (error + 's) option) option \<Rightarrow> 's \<Rightarrow> (error + 's) option" where
  "ForEachKey d cb st =
     (case cb of
        None \<Rightarrow> Some (Inl ErrCallbackNil)
      | Some f \<Rightarrow>
          forEachId f (map of_nat [unat KEY_1 ..< unat (KEY_1 + keyCount (model d))]) st)"

definition ForEachTouchPoint ::
  "device \<Rightarrow> (byte \<Rightarrow> 's \<Rightarrow> (error + 's) option) option \<Rightarrow> 's \<Rightarrow> (error + 's) option" where
  "ForEachTouchPoint d cb st =
     (case cb of
        None \<Rightarrow> Some (Inl ErrCallbackNil)
      | Some f \<Rightarrow>
          forEachId f
            (map of_nat
               [unat TOUCH_POINT_1 ..< unat (TOUCH_POINT_1 + touchPointCount (model d))]) st)"

definition ForEachDial ::
  "device \<Rightarrow> (byte \<Rightarrow> 's \<Rightarrow> (error + 's) option) option \<Rightarrow> 's \<Rightarrow> (error + 's) option" where
  "ForEachDial d cb st =
     (case cb of
        None \<Rightarrow> Some (Inl ErrCallbackNil)
      | Some f \<Rightarrow>
          forEachId f (map of_nat [unat DIAL_1 ..< unat (DIAL_1 + dialCount (model d))]) st)"

subsection \<open>Display operations (image.go)\<close>

text \<open>The result of a send function, put back into the device.\<close>

definition withDev :: "device \<Rightarrow> (error + usbdev) option \<Rightarrow> (error + device) option" where
  "withDev d r =
     (case r of
        None \<Rightarrow> None
      | Some (Inl e) \<Rightarrow> Some (Inl e)
      | Some (Inr u) \<Rightarrow> Some (Inr (d\<lparr>dev := u\<rparr>)))"

definition setKeyImage ::
  "imglib \<Rightarrow> device \<Rightarrow> byte \<Rightarrow> image option \<Rightarrow> (error + device) option" where
  "setKeyImage lib d k img =
     (case genImage lib img (keyImageRect (model d)) (keyImageFormat (model d))
             (keyImageTransform (model d)) of
        Inl e \<Rightarrow> Some (Inl e)
      | Inr data \<Rightarrow> withDev d (keyImageSend (model d) (dev d) k data))"

definition setKeyImageFromReader ::
  "imglib \<Rightarrow> device \<Rightarrow> byte \<Rightarrow> byte list \<Rightarrow> (error + device) option" where
  "setKeyImageFromReader lib d k r =
     (case imageDecode lib r of
        Inl e \<Rightarrow> Some (Inl e)
      | Inr img \<Rightarrow> setKeyImage lib d k (Some img))"

definition SetKeyImage ::
  "imglib \<Rightarrow> device \<Rightarrow> byte \<Rightarrow> image option \<Rightarrow> (error + device) option" where
  "SetKeyImage lib d k img =
     (case validateOpen d of
        Some e \<Rightarrow> Some (Inl e)
      | None \<Rightarrow>
          (case validateKey d k of
             Some e \<Rightarrow> Some (Inl e)
           | None \<Rightarrow> setKeyImage lib d k img))"

definition SetKeyImageFromReader ::
  "imglib \<Rightarrow> device \<Rightarrow> byte \<Rightarrow> byte list option \<Rightarrow> (error + device) option" where
  "SetKeyImageFromReader lib d k r =
     (case validateOpen d of
        Some e \<Rightarrow> Some (Inl e)
      | None \<Rightarrow>
          (case validateKey d k of
             Some e \<Rightarrow> Some (Inl e)
           | None \<Rightarrow>
               (case r of
                  None \<Rightarrow> Some (Inl ErrImageInvalid)
                | Some bs \<Rightarrow> setKeyImageFromReader lib d k bs)))"

definition SetKeyImageFromReadCloser ::
  "imglib \<Rightarrow> device \<Rightarrow> byte \<Rightarrow> byte list option \<Rightarrow> (error + device) option" where
  "SetKeyImageFromReadCloser lib d k r =
     (case validateOpen d of
        Some e \<Rightarrow> Some (Inl e)
      | None \<Rightarrow>
          (case validateKey d k of
             Some e \<Rightarrow> Some (Inl e)
           | None \<Rightarrow>
               (case r of
                  None \<Rightarrow> Some (Inl ErrImageInvalid)
                | Some bs \<Rightarrow> setKeyImageFromReader lib d k bs)))"

definition SetKeyImageFromFS ::
  "imglib \<Rightarrow> device \<Rightarrow> byte \<Rightarrow> (string \<Rightarrow> error + byte list) \<Rightarrow> string
     \<Rightarrow> (error + device) option" where
  "SetKeyImageFromFS lib d k ffs name =
     (case validateOpen d of
        Some e \<Rightarrow> Some (Inl e)
      | None \<Rightarrow>
          (case validateKey d k of
             Some e \<Rightarrow> Some (Inl e)
           | None \<Rightarrow>
               (case ffs name of
                  Inl e \<Rightarrow> Some (Inl e)
                | Inr fp \<Rightarrow> setKeyImageFromReader lib d k fp)))"

definition SetKeyImageFromFile ::
  "imglib \<Rightarrow> device \<Rightarrow> byte \<Rightarrow> string \<Rightarrow> (error + device) option" where
  "SetKeyImageFromFile lib d k name =
     (case validateOpen d of
        Some e \<Rightarrow> Some (Inl e)
      | None \<Rightarrow>
          (case validateKey d k of
             Some e \<Rightarrow> Some (Inl e)
           | None \<Rightarrow>
               (case osOpen lib name of
                  Inl e \<Rightarrow> Some (Inl e)
                | Inr fp \<Rightarrow> setKeyImageFromReader lib d k fp)))"

definition SetKeyColor :: "imglib \<Rightarrow> device \<Rightarrow> byte \<Rightarrow> color \<Rightarrow> (error + device) option" where
  "SetKeyColor lib d k c =
     SetKeyImage lib d k (Some (imageColor c (keyImageRect (model d))))"

definition ClearKey :: "imglib \<Rightarrow> device \<Rightarrow> byte \<Rightarrow> (error + device) option" where
  "ClearKey lib d k = SetKeyColor lib d k color_Black"

definition GetKeyImageRectangle :: "device \<Rightarrow> error + rectangle" where
  "GetKeyImageRectangle d = Inr (keyImageRect (model d))"

definition setInfoBarImage :: "imglib \<Rightarrow> device \<Rightarrow> image option \<Rightarrow> (error + device) option" where
  "setInfoBarImage lib d img =
     (case genImage lib img (infoBarImageRect (model d)) (infoBarImageFormat (model d))
             (infoBarImageTransform (model d)) of
        Inl e \<Rightarrow> Some (Inl e)
      | Inr data \<Rightarrow>
          (case infoBarImageSend (model d) of
             None \<Rightarrow> Some (Inl PanicNilDereference)
           | Some send \<Rightarrow> withDev d (send (dev d) data)))"

definition setInfoBarImageFromReader ::
  "imglib \<Rightarrow> device \<Rightarrow> byte list \<Rightarrow> (error + device) option" where
  "setInfoBarImageFromReader lib d r =
     (case imageDecode lib r of
        Inl e \<Rightarrow> Some (Inl e)
      | Inr img \<Rightarrow> setInfoBarImage lib d (Some img))"

definition SetInfoBarImage :: "imglib \<Rightarrow> device \<Rightarrow> image option \<Rightarrow> (error + device) option" where
  "SetInfoBarImage lib d img =
     (case validateOpen d of
        Some e \<Rightarrow> Some (Inl e)
      | None \<Rightarrow>
          if infoBarImageSend (model d) = None then Some (Inl ErrDeviceInfoBarNotSupported)
          else setInfoBarImage lib d img)"

definition SetInfoBarImageFromReader ::
  "imglib \<Rightarrow> device \<Rightarrow> byte list option \<Rightarrow> (error + device) option" where
  "SetInfoBarImageFromReader lib d r =
     (case validateOpen d of
        Some e \<Rightarrow> Some (Inl e)
      | None \<Rightarrow>
          (case validateInfoBar d of
             Some e \<Rightarrow> Some (Inl e)
           | None \<Rightarrow>
               (case r of
                  None \<Rightarrow> Some (Inl ErrImageInvalid)
                | Some bs \<Rightarrow> setInfoBarImageFromReader lib d bs)))"

definition SetInfoBarImageFromReadCloser ::
  "imglib \<Rightarrow> device \<Rightarrow> byte list option \<Rightarrow> (error + device) option" where
  "SetInfoBarImageFromReadCloser lib d r =
     (case validateOpen d of
        Some e \<Rightarrow> Some (Inl e)
      | None \<Rightarrow>
          (case validateInfoBar d of
             Some e \<Rightarrow> Some (Inl e)
           | None \<Rightarrow>
               (case r of
                  None \<Rightarrow> Some (Inl ErrImageInvalid)
                | Some bs \<Rightarrow> setInfoBarImageFromReader lib d bs)))"

definition SetInfoBarImageFromFS ::
  "imglib \<Rightarrow> device \<Rightarrow> (string \<Rightarrow> error + byte list) \<Rightarrow> string \<Rightarrow> (error + device) option"
where
  "SetInfoBarImageFromFS lib d ffs name =
     (case validateOpen d of
        Some e \<Rightarrow> Some (Inl e)
      | None \<Rightarrow>
          (case validateInfoBar d of
             Some e \<Rightarrow> Some (Inl e)
           | None \<Rightarrow>
               (case ffs name of
                  Inl e \<Rightarrow> Some (Inl e)
                | Inr fp \<Rightarrow> setInfoBarImageFromReader lib d fp)))"

definition SetInfoBarImageFromFile ::
  "imglib \<Rightarrow> device \<Rightarrow> string \<Rightarrow> (error + device) option" where
  "SetInfoBarImageFromFile lib d name =
     (case validateOpen d of
        Some e \<Rightarrow> Some (Inl e)
      | None \<Rightarrow>
          (case validateInfoBar d of
             Some e \<Rightarrow> Some (Inl e)
           | None \<Rightarrow>
               (case osOpen lib name of
                  Inl e \<Rightarrow> Some (Inl e)
                | Inr fp \<Rightarrow> setInfoBarImageFromReader lib d fp)))"

definition SetInfoBarColor :: "imglib \<Rightarrow> device \<Rightarrow> color \<Rightarrow> (error + device) option" where
  "SetInfoBarColor lib d c =
     SetInfoBarImage lib d (Some (imageColor c (infoBarImageRect (model d))))"

definition ClearInfoBar :: "imglib \<Rightarrow> device \<Rightarrow> (error + device) option" where
  "ClearInfoBar lib d = SetInfoBarColor lib d color_Black"

definition GetInfoBarImageRectangle :: "device \<Rightarrow> error + rectangle" where
  "GetInfoBarImageRectangle d =
     (if infoBarImageSend (model d) = None then Inl ErrDeviceInfoBarNotSupported
      else Inr (infoBarImageRect (model d)))"

definition SetTouchPointColor :: "device \<Rightarrow> byte \<Rightarrow> color \<Rightarrow> error + device" where
  "SetTouchPointColor d p c =
     (case validateOpen d of
        Some e \<Rightarrow> Inl e
      | None \<Rightarrow>
          (case validateTouchPoint d p of
             Some e \<Rightarrow> Inl e
           | None \<Rightarrow>
               (case touchPointColorSend (model d) of
                  None \<Rightarrow> Inl PanicNilDereference
                | Some send \<Rightarrow>
                    (case send (dev d) p c of
                       Inl e \<Rightarrow> Inl e
                     | Inr u \<Rightarrow> Inr (d\<lparr>dev := u\<rparr>)))))"

definition ClearTouchPoint :: "device \<Rightarrow> byte \<Rightarrow> error + device" where
  "ClearTouchPoint d p = SetTouchPointColor d p color_Black"


definition setTouchStripImage ::
  "imglib \<Rightarrow> device \<Rightarrow> image option \<Rightarrow> rectangle option \<Rightarrow> (error + device) option" where
  "setTouchStripImage lib d img rect =
     (let r = (case rect of None \<Rightarrow> touchStripImageRect (model d) | Some x \<Rightarrow> x);
          v = (case rect of
                 None \<Rightarrow> touchStripImageRect (model d)
               | Some x \<Rightarrow> Rect 0 0 (Dx x) (Dy x))
      in case genImage lib img v (touchStripImageFormat (model d))
                (touchStripImageTransform (model d)) of
           Inl e \<Rightarrow> Some (Inl e)
         | Inr data \<Rightarrow>
             (case touchStripImageSend (model d) of
                None \<Rightarrow> Some (Inl PanicNilDereference)
              | Some send \<Rightarrow> withDev d (send (dev d) data r)))"

definition setTouchStripImageFromReader ::
  "imglib \<Rightarrow> device \<Rightarrow> byte list \<Rightarrow> rectangle option \<Rightarrow> (error + device) option" where
  "setTouchStripImageFromReader lib d r rect =
     (case imageDecode lib r of
        Inl e \<Rightarrow> Some (Inl e)
      | Inr img \<Rightarrow> setTouchStripImage lib d (Some img) rect)"

definition setTouchStripImageFromFile ::
  "imglib \<Rightarrow> device \<Rightarrow> string \<Rightarrow> rectangle option \<Rightarrow> (error + device) option" where
  "setTouchStripImageFromFile lib d name rect =
     (case osOpen lib name of
        Inl e \<Rightarrow> Some (Inl e)
      | Inr fp \<Rightarrow> setTouchStripImageFromReader lib d fp rect)"

definition setTouchStripImageFromFS ::
  "imglib \<Rightarrow> device \<Rightarrow> (string \<Rightarrow> error + byte list) \<Rightarrow> string \<Rightarrow> rectangle option
     \<Rightarrow> (error + device) option" where
  "setTouchStripImageFromFS lib d ffs name rect =
     (case ffs name of
        Inl e \<Rightarrow> Some (Inl e)
      | Inr fp \<Rightarrow> setTouchStripImageFromReader lib d fp rect)"

definition validateTouchStripRectangle :: "device \<Rightarrow> rectangle \<Rightarrow> error option" where
  "validateTouchStripRectangle d rect =
     (if \<not> rect_In rect (touchStripImageRect (model d)) then Some ErrTouchStripImageRectangle
      else None)"

definition SetTouchStripImageWithRectangle ::
  "imglib \<Rightarrow> device \<Rightarrow> image option \<Rightarrow> rectangle \<Rightarrow> (error + device) option" where
  "SetTouchStripImageWithRectangle lib d img rect =
     (case validateOpen d of
        Some e \<Rightarrow> Some (Inl e)
      | None \<Rightarrow>
          (case validateTouchStripRectangle d rect of
             Some e \<Rightarrow> Some (Inl e)
           | None \<Rightarrow>
               (case validateTouchStrip d of
                  Some e \<Rightarrow> Some (Inl e)
                | None \<Rightarrow> setTouchStripImage lib d img (Some rect))))"

definition SetTouchStripImage ::
  "imglib \<Rightarrow> device \<Rightarrow> image option \<Rightarrow> (error + device) option" where
  "SetTouchStripImage lib d img =
     (case validateOpen d of
        Some e \<Rightarrow> Some (Inl e)
      | None \<Rightarrow>
          (case validateTouchStrip d of
             Some e \<Rightarrow> Some (Inl e)
           | None \<Rightarrow> setTouchStripImage lib d img None))"

definition SetTouchStripImageFromReaderWithRectangle ::
  "imglib \<Rightarrow> device \<Rightarrow> byte list option \<Rightarrow> rectangle \<Rightarrow> (error + device) option" where
  "SetTouchStripImageFromReaderWithRectangle lib d r rect =
     (case validateOpen d of
        Some e \<Rightarrow> Some (Inl e)
      | None \<Rightarrow>
          (case validateTouchStrip d of
             Some e \<Rightarrow> Some (Inl e)
           | None \<Rightarrow>
               (case validateTouchStripRectangle d rect of
                  Some e \<Rightarrow> Some (Inl e)
                | None \<Rightarrow>
                    (case r of
                       None \<Rightarrow> Some (Inl ErrImageInvalid)
                     | Some bs \<Rightarrow> setTouchStripImageFromReader lib d bs (Some rect)))))"

definition SetTouchStripImageFromReader ::
  "imglib \<Rightarrow> device \<Rightarrow> byte list option \<Rightarrow> (error + device) option" where
  "SetTouchStripImageFromReader lib d r =
     (case validateOpen d of
        Some e \<Rightarrow> Some (Inl e)
      | None \<Rightarrow>
          (case validateTouchStrip d of
             Some e \<Rightarrow> Some (Inl e)
           | None \<Rightarrow>
               (case r of
                  None \<Rightarrow> Some (Inl ErrImageInvalid)
                | Some bs \<Rightarrow> setTouchStripImageFromReader lib d bs None)))"

definition SetTouchStripImageFromReadCloserWithRectangle ::
  "imglib \<Rightarrow> device \<Rightarrow> byte list option \<Rightarrow> rectangle \<Rightarrow> (error + device) option" where
  "SetTouchStripImageFromReadCloserWithRectangle lib d r rect =
     (case validateOpen d of
        Some e \<Rightarrow> Some (Inl e)
      | None \<Rightarrow>
          (case validateTouchStrip d of
             Some e \<Rightarrow> Some (Inl e)
           | None \<Rightarrow>
               (case validateTouchStripRectangle d rect of
                  Some e \<Rightarrow> Some (Inl e)
                | None \<Rightarrow>
                    (case r of
                       None \<Rightarrow> Some (Inl ErrImageInvalid)
                     | Some bs \<Rightarrow> setTouchStripImageFromReader lib d bs (Some rect)))))"

definition SetTouchStripImageFromReadCloser ::
  "imglib \<Rightarrow> device \<Rightarrow> byte list option \<Rightarrow> (error + device) option" where
  "SetTouchStripImageFromReadCloser lib d r =
     (case validateOpen d of
        Some e \<Rightarrow> Some (Inl e)
      | None \<Rightarrow>
          (case validateTouchStrip d of
             Some e \<Rightarrow> Some (Inl e)
           | None \<Rightarrow>
               (case r of
                  None \<Rightarrow> Some (Inl ErrImageInvalid)
                | Some bs \<Rightarrow> setTouchStripImageFromReader lib d bs None)))"

definition SetTouchStripImageFromFileWithRectangle ::
  "imglib \<Rightarrow> device \<Rightarrow> string \<Rightarrow> rectangle \<Rightarrow> (error + device) option" where
  "SetTouchStripImageFromFileWithRectangle lib d name rect =
     (case validateOpen d of
        Some e \<Rightarrow> Some (Inl e)
      | None \<Rightarrow>
          (case validateTouchStrip d of
             Some e \<Rightarrow> Some (Inl e)
           | None \<Rightarrow>
               (case validateTouchStripRectangle d rect of
                  Some e \<Rightarrow> Some (Inl e)
                | None \<Rightarrow> setTouchStripImageFromFile lib d name (Some rect))))"

definition SetTouchStripImageFromFile ::
  "imglib \<Rightarrow> device \<Rightarrow> string \<Rightarrow> (error + device) option" where
  "SetTouchStripImageFromFile lib d name =
     (case validateOpen d of
        Some e \<Rightarrow> Some (Inl e)
      | None \<Rightarrow>
          (case validateTouchStrip d of
             Some e \<Rightarrow> Some (Inl e)
           | None \<Rightarrow> setTouchStripImageFromFile lib d name None))"

definition SetTouchStripImageFromFSWithRectangle ::
  "imglib \<Rightarrow> device \<Rightarrow> (string \<Rightarrow> error + byte list) \<Rightarrow> string \<Rightarrow> rectangle
     \<Rightarrow> (error + device) option" where
  "SetTouchStripImageFromFSWithRectangle lib d ffs name rect =
     (case validateOpen d of
        Some e \<Rightarrow> Some (Inl e)
      | None \<Rightarrow>
          (case validateTouchStrip d of
             Some e \<Rightarrow> Some (Inl e)
           | None \<Rightarrow>
               (case validateTouchStripRectangle d rect of
                  Some e \<Rightarrow> Some (Inl e)
                | None \<Rightarrow> setTouchStripImageFromFS lib d ffs name (Some rect))))"

definition SetTouchStripImageFromFS ::
  "imglib \<Rightarrow> device \<Rightarrow> (string \<Rightarrow> error + byte list) \<Rightarrow> string \<Rightarrow> (error + device) option"
where
  "SetTouchStripImageFromFS lib d ffs name =
     (case validateOpen d of
        Some e \<Rightarrow> Some (Inl e)
      | None \<Rightarrow>
          (case validateTouchStrip d of
             Some e \<Rightarrow> Some (Inl e)
           | None \<Rightarrow> setTouchStripImageFromFS lib d ffs name None))"

definition SetTouchStripColorWithRectangle ::
  "imglib \<Rightarrow> device \<Rightarrow> color \<Rightarrow> rectangle \<Rightarrow> (error + device) option" where
  "SetTouchStripColorWithRectangle lib d c rect =
     SetTouchStripImageWithRectangle lib d
       (Some (imageColor c (Rect 0 0 (Dx rect) (Dy rect)))) rect"

definition SetTouchStripColor :: "imglib \<Rightarrow> device \<Rightarrow> color \<Rightarrow> (error + device) option" where
  "SetTouchStripColor lib d c =
     SetTouchStripImage lib d (Some (imageColor c (touchStripImageRect (model d))))"

definition ClearTouchStripWithRectangle ::
  "imglib \<Rightarrow> device \<Rightarrow> rectangle \<Rightarrow> (error + device) option" where
  "ClearTouchStripWithRectangle lib d rect =
     SetTouchStripColorWithRectangle lib d color_Black rect"

definition ClearTouchStrip :: "imglib \<Rightarrow> device \<Rightarrow> (error + device) option" where
  "ClearTouchStrip lib d = SetTouchStripColor lib d color_Black"

definition GetTouchStripImageRectangle :: "device \<Rightarrow> error + rectangle" where
  "GetTouchStripImageRectangle d =
     (if touchStripImageSend (model d) = None then Inl ErrDeviceTouchStripNotSupported
      else Inr (touchStripImageRect (model d)))"

text \<open>
  \<^verbatim>\<open>closeDisplays\<close>: the callbacks are the methods \<^verbatim>\<open>d.ClearKey\<close> and
  \<^verbatim>\<open>d.ClearTouchPoint\<close>, whose state is the device.
\<close>

definition closeDisplays :: "imglib \<Rightarrow> device \<Rightarrow> (error + device) option" where
  "closeDisplays lib d =
     (case ForEachKey d (Some (\<lambda>k st. ClearKey lib st k)) d of
        None \<Rightarrow> None
      | Some (Inl e) \<Rightarrow> Some (Inl e)
      | Some (Inr d1) \<Rightarrow>
          (case ForEachTouchPoint d1 (Some (\<lambda>p st. Some (ClearTouchPoint st p))) d1 of
             None \<Rightarrow> None
           | Some (Inl e) \<Rightarrow> Some (Inl e)
           | Some (Inr d2) \<Rightarrow>
               (case (if GetInfoBarSupported d2 then ClearInfoBar lib d2
                      else Some (Inr d2)) of
                  None \<Rightarrow> None
                | Some (Inl e) \<Rightarrow> Some (Inl e)
                | Some (Inr d3) \<Rightarrow>
                    (if GetTouchStripSupported d3 then ClearTouchStrip lib d3
                     else Some (Inr d3)))))"

definition Close :: "imglib \<Rightarrow> device \<Rightarrow> (error + device) option" where
  "Close lib d =
     (case validateOpen d of
        Some e \<Rightarrow> Some (Inl e)
      | None \<Rightarrow>
          (case closeDisplays lib d of
             None \<Rightarrow> None
           | Some (Inl e) \<Rightarrow> Some (Inl e)
           | Some (Inr d1) \<Rightarrow>
               (case (if listen d1 \<noteq> ChanNil then chan_close (listen d1)
                      else Inr ChanNil) of
                  Inl e \<Rightarrow> Some (Inl e)
                | Inr c \<Rightarrow>
                    (case usb_Close (dev d1) of
                       Inl e \<Rightarrow> Some (Inl e)
                     | Inr u \<Rightarrow> Some (Inr (d1\<lparr>listen := ChanNil, dev := u, opened := False\<rparr>))))))"

subsection \<open>The polling loop: \<^verbatim>\<open>Listen\<close>\<close>

text \<open>
  What \<^verbatim>\<open>GetInputReport\<close> returns is the environment's: an error, or a report id and
  a buffer. Each read comes with the instant that \<^verbatim>\<open>time.Now()\<close> returns in that
  iteration. The loop is modelled on a finite list of reads; when the list is used up the
  loop is blocked in the next read.
\<close>

datatype read_result = ReadErr error | ReadOk byte "byte list"

text \<open>
  The two edge loops of \<^verbatim>\<open>Listen\<close> (dial switches against \<^verbatim>\<open>dialStates\<close>, keys and
  touch points against \<^verbatim>\<open>keyStates\<close>) have the same body:
  \<^verbatim>\<open>for i, st := range states\<close>, skip an unchanged byte, skip an index without a
  slot, press on a non-zero byte and release on zero.
\<close>

fun edges ::
  "time \<Rightarrow> byte list \<Rightarrow> nat \<Rightarrow> byte list \<Rightarrow> input list \<Rightarrow> launch list
     \<Rightarrow> error + (input list \<times> launch list)" where
  "edges t prev i [] ins acc = Inr (ins, acc)"
| "edges t prev i (st # sts) ins acc =
     (case goIndex prev i of
        Inl e \<Rightarrow> Inl e
      | Inr old \<Rightarrow>
          if st = old then edges t prev (Suc i) sts ins acc
          else if i \<ge> length ins then edges t prev (Suc i) sts ins acc
          else if st > 0
          then edges t prev (Suc i) sts (ins[i := fst (press (ins ! i) t)])
                 (acc @ snd (press (ins ! i) t))
          else
            (case release (ins ! i) t of
               Inl e \<Rightarrow> Inl e
             | Inr inp' \<Rightarrow> edges t prev (Suc i) sts (ins[i := inp']) acc))"

fun rotations :: "nat \<Rightarrow> byte list \<Rightarrow> input list \<Rightarrow> launch list" where
  "rotations i [] ins = []"
| "rotations i (st # sts) ins =
     (if i \<ge> length ins then rotations (Suc i) sts ins
      else if st \<noteq> 0 then rotate (ins ! i) st @ rotations (Suc i) sts ins
      else rotations (Suc i) sts ins)"

definition slots :: "input list option \<Rightarrow> input list" where
  "slots l = (case l of None \<Rightarrow> [] | Some ins \<Rightarrow> ins)"

text \<open>\<^verbatim>\<open>int(buf[hi])<<8 | int(buf[lo])\<close>\<close>

definition coord :: "byte list \<Rightarrow> nat \<Rightarrow> nat \<Rightarrow> int" where
  "coord buf hi lo = push_bit 8 (uint (buf ! hi)) OR uint (buf ! lo)"

definition listenTouchStrip :: "device \<Rightarrow> byte list \<Rightarrow> error + (device \<times> launch list)" where
  "listenTouchStrip d buf =
     (case touchStripInput d of
        None \<Rightarrow> Inr (d, [])
      | Some tsi \<Rightarrow>
          (case goIndex buf 3 of
             Inl e \<Rightarrow> Inl e
           | Inr b3 \<Rightarrow>
               if b3 = 1 \<or> b3 = 2 then
                 (if length buf < 9 then Inr (d, [])
                  else Inr (d, touch tsi
                                 (if b3 = 1 then TOUCH_STRIP_TOUCH_TYPE_SHORT
                                  else TOUCH_STRIP_TOUCH_TYPE_LONG)
                                 (Point (coord buf 6 5) (coord buf 8 7))))
               else if b3 = 3 then
                 (if length buf < 13 then Inr (d, [])
                  else Inr (d, swipe tsi (Point (coord buf 6 5) (coord buf 8 7))
                                         (Point (coord buf 10 9) (coord buf 12 11))))
               else Inr (d, [])))"

definition listenDial ::
  "device \<Rightarrow> time \<Rightarrow> byte list \<Rightarrow> error + (device \<times> launch list)" where
  "listenDial d now buf =
     (case goSlice buf (unat (dialStart (model d)))
             (unat (dialStart (model d) + dialCount (model d))) of
        Inl e \<Rightarrow> Inl e
      | Inr states \<Rightarrow>
          (case goIndex buf 3 of
             Inl e \<Rightarrow> Inl e
           | Inr b3 \<Rightarrow>
               if b3 = 0 then
                 (case edges now (dialStates d) 0 states (slots (dialInputs d)) [] of
                    Inl e \<Rightarrow> Inl e
                  | Inr r \<Rightarrow>
                      Inr (d\<lparr>dialInputs := map_option (\<lambda>_. fst r) (dialInputs d),
                              dialStates := states\<rparr>, snd r))
               else if b3 = 1 then Inr (d, rotations 0 states (slots (dialInputs d)))
               else Inr (d, [])))"

text \<open>
  The monitored bytes of a key report: the key bytes, followed by the touch-point bytes
  when the model has touch points.
\<close>

definition reportStates :: "model \<Rightarrow> byte list \<Rightarrow> error + byte list" where
  "reportStates m buf =
     (case goSlice buf (unat (keyStart m)) (unat (keyStart m + keyCount m)) of
        Inl e \<Rightarrow> Inl e
      | Inr ks \<Rightarrow>
          if touchPointCount m > 0
          then (case goSlice buf (unat (touchPointStart m))
                       (unat (touchPointStart m + touchPointCount m)) of
                  Inl e \<Rightarrow> Inl e
                | Inr tps \<Rightarrow> Inr (ks @ tps))
          else Inr ks)"

definition listenKeys ::
  "device \<Rightarrow> time \<Rightarrow> byte list \<Rightarrow> error + (device \<times> launch list)" where
  "listenKeys d now buf =
     (case reportStates (model d) buf of
        Inl e \<Rightarrow> Inl e
      | Inr states \<Rightarrow>
          (case edges now (keyStates d) 0 states (slots (inputs d)) [] of
             Inl e \<Rightarrow> Inl e
           | Inr r \<Rightarrow>
               Inr (d\<lparr>inputs := map_option (\<lambda>_. fst r) (inputs d),
                       keyStates := states\<rparr>, snd r)))"

text \<open>One iteration of the loop, after the stop check: the read and its interpretation.\<close>

definition listenIter ::
  "device \<Rightarrow> time \<Rightarrow> read_result \<Rightarrow> error + (device \<times> launch list)" where
  "listenIter d now rr =
     (case rr of
        ReadErr e \<Rightarrow> Inl e
      | ReadOk rid buf \<Rightarrow>
          if rid \<noteq> 1 then Inl (ErrUnexpectedReportId rid)
          else
            (case goIndex buf 0 of
               Inl e \<Rightarrow> Inl e
             | Inr b0 \<Rightarrow>
                 if b0 = 2 \<and> touchStripImageSend (model d) \<noteq> None then listenTouchStrip d buf
                 else if b0 = 3 \<and> dialCount (model d) > 0 then listenDial d now buf
                 else listenKeys d now buf))"

text \<open>
  The outcome of \<^verbatim>\<open>Listen\<close>: it returned (nil or an error), or it is still blocked
  in a read; with the device and the launches so far.
\<close>

datatype listen_outcome = Returned "error option" | Blocked

fun listenLoop ::
  "device \<Rightarrow> (time \<times> read_result) list \<Rightarrow> launch list
     \<Rightarrow> listen_outcome \<times> device \<times> launch list" where
  "listenLoop d [] acc =
     (if listen d \<noteq> ChanOpen then (Returned None, d, acc) else (Blocked, d, acc))"
| "listenLoop d (r # rs) acc =
     (if listen d \<noteq> ChanOpen then (Returned None, d, acc)
      else
        (case listenIter d (fst r) (snd r) of
           Inl e \<Rightarrow> (Returned (Some e), d, acc)
         | Inr step \<Rightarrow> listenLoop (fst step) rs (acc @ snd step)))"

definition Listen ::
  "device \<Rightarrow> (time \<times> read_result) list \<Rightarrow> listen_outcome \<times> device \<times> launch list" where
  "Listen d reads =
     (case validateOpen d of
        Some e \<Rightarrow> (Returned (Some e), d, [])
      | None \<Rightarrow>
          (let n = unat (keyCount (model d) + touchPointCount (model d));
               d1 = (if length (keyStates d) \<noteq> n then d\<lparr>keyStates := replicate n 0\<rparr> else d);
               d2 = (if length (dialStates d1) \<noteq> unat (dialCount (model d1))
                     then d1\<lparr>dialStates := replicate (unat (dialCount (model d1))) 0\<rparr>
                     else d1)
           in listenLoop d2 reads []))"

section \<open>Concrete inputs\<close>

text \<open>
  What \<^verbatim>\<open>errors.Is(err, ErrDeviceEnumerationFailed)\<close> reports: both failures of
  \<^verbatim>\<open>getModel\<close> wrap that sentinel.
\<close>

definition wrapsEnumerationFailed :: "error \<Rightarrow> bool" where
  "wrapsEnumerationFailed e =
     (case e of
        ErrNotElgatoDevice v \<Rightarrow> True
      | ErrDeviceNotSupported v p \<Rightarrow> True
      | _ \<Rightarrow> False)"

text \<open>
  A transport handle with the given vendor and product id, closed, with reports of 1024
  bytes, on which no write fails.
\<close>

definition exampleUsb :: "uint16 \<Rightarrow> uint16 \<Rightarrow> usbdev" where
  "exampleUsb vid pid =
     \<lparr>vendorId = vid, productId = pid, serialNumber = ''A1'', product = ''Stream Deck'',
      isOpen = False, outputReportLength = 1024, featureReportLength = 32,
      outputReports = [], featureReports = [],
      outputFails = (\<lambda>n. False), featureFails = (\<lambda>n. False),
      featureInput = (\<lambda>r. Inl ErrGetFeatureReportFailed),
      openFails = False, closeFails = False\<rparr>"

text \<open>An MK.2 as \<^verbatim>\<open>Enumerate\<close> returns it, and the same device once opened.\<close>

definition exampleMk2 :: device where
  "exampleMk2 = newDevice (exampleUsb 0x0fd9 0x0080) model_mk2"

definition exampleMk2Open :: device where
  "exampleMk2Open =
     exampleMk2\<lparr>dev := (exampleUsb 0x0fd9 0x0080)\<lparr>isOpen := True\<rparr>,
                opened := True, listen := ChanOpen\<rparr>"

text \<open>
  An image library whose copy keeps the high byte of every channel of the source pixels
  and leaves the rest of the canvas zeroed, whose scaler leaves the canvas zeroed and whose
  encoders return no bytes.
\<close>

definition exampleLib :: imglib where
  "exampleLib =
     \<lparr>drawCopy = (\<lambda>r im p.
                    if point_In (fst p) (snd p) (bounds im)
                    then (case at im (fst p) (snd p) of
                            (cr, cg, cb, ca) \<Rightarrow>
                              RGBA (ucast (drop_bit 8 cr)) (ucast (drop_bit 8 cg))
                                   (ucast (drop_bit 8 cb)) (ucast (drop_bit 8 ca)))
                    else RGBA 0 0 0 0),
      drawScale = (\<lambda>r sr im p. RGBA 0 0 0 0),
      getScaledRect = (\<lambda>src dst. dst),
      bmpEncode = (\<lambda>c. Inr []),
      jpegEncode = (\<lambda>c. Inr []),
      imageDecode = (\<lambda>bs. Inl (ErrExternal 0)),
      osOpen = (\<lambda>name. Inl (ErrExternal 1))\<rparr>"

text \<open>The open MK.2 after \<^verbatim>\<open>AddKeyHandler(KEY_1, h7)\<close>, with the snapshot of \<^verbatim>\<open>Listen\<close>.\<close>

definition exampleMk2Key1 :: device where
  "exampleMk2Key1 =
     (case AddKeyHandler exampleMk2Open 1 (Some 7) of
        Inr d \<Rightarrow> d\<lparr>keyStates := replicate 15 0\<rparr>
      | Inl e \<Rightarrow> exampleMk2Open)"

text \<open>An open Plus with one touch handler and one swipe handler on its touch strip.\<close>

definition examplePlusOpen :: device where
  "examplePlusOpen =
     (newDevice ((exampleUsb 0x0fd9 0x0084)\<lparr>isOpen := True\<rparr>) model_plus)
       \<lparr>opened := True, listen := ChanOpen,
        touchStripInput := Some (emptyInput\<lparr>touchStrip := Some (TouchStrip [7] [8])\<rparr>)\<rparr>"

text \<open>The slot of key 1 with one handler, never pressed.\<close>

definition exampleSlot :: input where
  "exampleSlot = emptyInput\<lparr>key := Some (Key 1 [7])\<rparr>"

text \<open>
  The two readings of a 16-bit value from two consecutive bytes, the first byte being the
  one at the lower offset.
\<close>

definition littleEndian16 :: "byte \<Rightarrow> byte \<Rightarrow> int" where
  "littleEndian16 b0 b1 = uint b0 + 256 * uint b1"

definition bigEndian16 :: "byte \<Rightarrow> byte \<Rightarrow> int" where
  "bigEndian16 b0 b1 = 256 * uint b0 + uint b1"



text \<open>The open transport of a Plus, with output reports of 1024 bytes.\<close>

definition exampleUsbOpen :: usbdev where
  "exampleUsbOpen = (exampleUsb 0x0fd9 0x0084)\<lparr>isOpen := True\<rparr>"

section \<open>The page split as the specification words it\<close>

text \<open>
  The payload cut into chunks of \<open>c\<close> bytes, the last one possibly shorter; there is always
  at least one chunk.
\<close>

function spec_chunks :: "nat \<Rightarrow> 'a list \<Rightarrow> 'a list list" where
  "spec_chunks c xs =
     (if c = 0 \<or> length xs \<le> c then [xs] else take c xs # spec_chunks c (drop c xs))"
  by pat_completeness auto
termination
  by (relation "measure (\<lambda>(c, xs). length xs)") auto

declare spec_chunks.simps [simp del]

text \<open>The header after a sequence of writes that are all in range.\<close>

fun spec_writes :: "byte list \<Rightarrow> (nat \<times> byte) list \<Rightarrow> byte list" where
  "spec_writes s [] = s"
| "spec_writes s (w # ws) = spec_writes (s[fst w := snd w]) ws"

text \<open>
  One report per chunk: the header updated for that page (only the final chunk is marked
  last), the chunk, and zeros up to the report length \<open>n\<close>.
\<close>

fun spec_reports ::
  "updateCb \<Rightarrow> nat \<Rightarrow> byte list \<Rightarrow> byte \<Rightarrow> byte list list \<Rightarrow> byte list list" where
  "spec_reports cb n hdr page [] = []"
| "spec_reports cb n hdr page (ch # chs) =
     (spec_writes hdr (cb hdr page (if chs = [] then 1 else 0) (of_nat (length ch)))
        @ ch @ replicate (n - length hdr - length ch) 0)
     # spec_reports cb n
         (spec_writes hdr (cb hdr page (if chs = [] then 1 else 0) (of_nat (length ch))))
         (page + 1) chs"

section \<open>Model registry: resolution\<close>



text \<open>
  Claim C8. A product id that is neither in the registry nor an alias does not resolve:
  the error wraps the enumeration failure, and for the Elgato vendor it is the
  "device not supported" error. An alias resolves to the very descriptor of its canonical
  product id. Any other vendor id fails, whatever the product id.
\<close>

theorem getModel_resolution:
  "(models (productId u) = None \<and> modelAliases (productId u) = None \<longrightarrow>
      (\<exists>e. getModel u = Inl e \<and> wrapsEnumerationFailed e) \<and>
      (vendorId u = elgatoVendorID \<longrightarrow>
         getModel u = Inl (ErrDeviceNotSupported (vendorId u) (productId u)))) \<and>
   (modelAliases (productId u) = Some c \<and> vendorId u = elgatoVendorID \<longrightarrow>
      (\<exists>m. getModel u = Inr m \<and> getModel (u\<lparr>productId := c\<rparr>) = Inr m)) \<and>
   (vendorId u \<noteq> elgatoVendorID \<longrightarrow>
      getModel u = Inl (ErrNotElgatoDevice (vendorId u)) \<and>
      wrapsEnumerationFailed (ErrNotElgatoDevice (vendorId u)))"
  by (auto simp: getModel_def wrapsEnumerationFailed_def modelAliases_def models_def
           split: if_splits)

theorem getModel_resolution_witness:
  "models (0x1234 :: uint16) = None \<and> modelAliases (0x1234 :: uint16) = None \<and>
   getModel (exampleUsb 0x0fd9 0x1234) = Inl (ErrDeviceNotSupported 0x0fd9 0x1234) \<and>
   modelAliases 0x006d = Some 0x0080 \<and>
   getModel (exampleUsb 0x0fd9 0x006d) = Inr model_mk2 \<and>
   getModel (exampleUsb 0x0fd9 0x0080) = Inr model_mk2 \<and>
   getModel (exampleUsb 0x046d 0x0080) = Inl (ErrNotElgatoDevice 0x046d)"
  using getModel_resolution [of "exampleUsb 0x0fd9 0x1234" 0]
        getModel_resolution [of "exampleUsb 0x0fd9 0x006d" "0x0080"]
        getModel_resolution [of "exampleUsb 0x046d 0x0080" 0]
  by (simp add: exampleUsb_def models_def modelAliases_def elgatoVendorID_def getModel_def)

section \<open>Key identifiers\<close>










section \<open>Input engine: release\<close>

lemma release_released: "released inp \<noteq> 0 \<Longrightarrow> release inp t = Inr inp"
  by (simp add: release_def)

lemma release_pressed:
  "released inp = 0 \<Longrightarrow> channel inp = ChanOpen \<Longrightarrow>
   release inp t =
     Inr (inp\<lparr>released := t, duration := time_Sub t (pressed inp), pressed := 0,
              channel := ChanClosed\<rparr>)"
  by (simp add: release_def chan_close_def Let_def)

lemma time_Sub_exact: "- (2 ^ 63) \<le> t - p \<Longrightarrow> t - p < 2 ^ 63 \<Longrightarrow> time_Sub t p = t - p"
  by (simp add: time_Sub_def)

lemma press_state:
  "fst (press inp p) = inp\<lparr>channel := ChanOpen, pressed := p, released := 0, duration := 0\<rparr>"
  by (simp add: press_def)

text \<open>
  A slot that was never pressed has no release timestamp and no channel: a release on it
  is not ignored, and closing its nil channel panics.
\<close>

lemma release_never_pressed: "release emptyInput t = Inl PanicCloseOfNilChannel"
  by (simp add: release_def emptyInput_def chan_close_def Let_def)

text \<open>
  Claim C9. A slot is in the released state when its release timestamp is set (not the
  zero time). Releasing it again changes nothing: the result is the same slot, so the
  channel is not closed again. A press leaves the slot with no release timestamp and a
  fresh open channel; the first release after it, at a time \<open>t\<close> that is not the zero time,
  records \<open>t\<close>, sets the duration to \<open>t\<close> minus the press time (\<^verbatim>\<open>Time.Sub\<close>, which is
  the exact difference whenever it fits a \<^verbatim>\<open>Duration\<close>), closes the channel, and any
  later release leaves that state as it is.
\<close>

theorem release_once:
  "(released inp \<noteq> 0 \<longrightarrow> release inp t = Inr inp) \<and>
   (released inp = 0 \<and> channel inp = ChanOpen \<longrightarrow>
      release inp t =
        Inr (inp\<lparr>released := t, duration := time_Sub t (pressed inp), pressed := 0,
                 channel := ChanClosed\<rparr>)) \<and>
   (- (2 ^ 63) \<le> t - p \<and> t - p < 2 ^ 63 \<longrightarrow> time_Sub t p = t - p) \<and>
   released (fst (press inp p)) = 0 \<and> channel (fst (press inp p)) = ChanOpen \<and>
   pressed (fst (press inp p)) = p \<and>
   (t \<noteq> 0 \<longrightarrow>
      (\<exists>r. release (fst (press inp p)) t = Inr r \<and> released r = t \<and>
           duration r = time_Sub t p \<and> channel r = ChanClosed \<and>
           release r t' = Inr r))"
proof -
  have a: "released inp \<noteq> 0 \<longrightarrow> release inp t = Inr inp"
    by (simp add: release_released)
  have b: "released inp = 0 \<and> channel inp = ChanOpen \<longrightarrow>
      release inp t =
        Inr (inp\<lparr>released := t, duration := time_Sub t (pressed inp), pressed := 0,
                 channel := ChanClosed\<rparr>)"
    by (simp add: release_pressed)
  have c: "- (2 ^ 63) \<le> t - p \<and> t - p < 2 ^ 63 \<longrightarrow> time_Sub t p = t - p"
    by (simp add: time_Sub_exact)
  have d: "released (fst (press inp p)) = 0 \<and> channel (fst (press inp p)) = ChanOpen \<and>
           pressed (fst (press inp p)) = p"
    by (simp add: press_state)
  have e: "t \<noteq> 0 \<longrightarrow>
      (\<exists>r. release (fst (press inp p)) t = Inr r \<and> released r = t \<and>
           duration r = time_Sub t p \<and> channel r = ChanClosed \<and>
           release r t' = Inr r)"
    by (simp add: press_state release_pressed release_released)
  from a b c d e show ?thesis by blast
qed

theorem release_once_witness:
  "released (fst (press exampleSlot 1000)) = 0 \<and>
   channel (fst (press exampleSlot 1000)) = ChanOpen \<and>
   release (fst (press exampleSlot 1000)) 1500 =
     Inr (exampleSlot\<lparr>channel := ChanClosed, pressed := 0, released := 1500,
                      duration := 500\<rparr>) \<and>
   released (exampleSlot\<lparr>channel := ChanClosed, pressed := 0, released := 1500,
                         duration := 500\<rparr>) \<noteq> 0 \<and>
   release (exampleSlot\<lparr>channel := ChanClosed, pressed := 0, released := 1500,
                        duration := 500\<rparr>) 1700 =
     Inr (exampleSlot\<lparr>channel := ChanClosed, pressed := 0, released := 1500,
                      duration := 500\<rparr>) \<and>
   time_Sub 1500 1000 = 500"
proof -
  let ?p = "fst (press exampleSlot 1000)"
  let ?r = "exampleSlot\<lparr>channel := ChanClosed, pressed := 0, released := 1500,
                        duration := 500\<rparr>"
  note w = release_once [of ?p 1500 1000 1700]
  note v = release_once [of ?r 1700 1000 1700]
  have s: "time_Sub 1500 1000 = 500"
    using w [THEN conjunct2, THEN conjunct2, THEN conjunct1] by simp
  have p: "released ?p = 0" "channel ?p = ChanOpen" "pressed ?p = 1000"
    by (simp_all add: press_state)
  have 1: "release ?p 1500 = Inr ?r"
    using w [THEN conjunct2, THEN conjunct1] p s by (simp add: press_state)
  have 2: "release ?r 1700 = Inr ?r"
    using v [THEN conjunct1] by simp
  show ?thesis using p s 1 2 by simp
qed

section \<open>Polling loop: touch-strip reports\<close>

lemma coord_le: "coord buf hi lo = littleEndian16 (buf ! lo) (buf ! hi)"
proof -
  have "push_bit 8 (uint (buf ! hi)) AND uint (buf ! lo) = 0"
    by (rule bit_eqI) (auto simp: bit_simps dest: bit_imp_le_length)
  then have "push_bit 8 (uint (buf ! hi)) + uint (buf ! lo) =
             push_bit 8 (uint (buf ! hi)) OR uint (buf ! lo)"
    by (rule disjunctive_add_eq_or)
  then show ?thesis
    by (simp add: coord_def littleEndian16_def push_bit_eq_mult)
qed

lemma listenIter_touchStrip:
  assumes "touchStripImageSend (model d) \<noteq> None" "buf \<noteq> []" "buf ! 0 = 2"
  shows "listenIter d now (ReadOk 1 buf) = listenTouchStrip d buf"
  using assms by (simp add: listenIter_def goIndex_def)

lemma examplePlusOpen_strip:
  "touchStripImageSend (model examplePlusOpen) \<noteq> None"
  "touchStripInput examplePlusOpen =
     Some (emptyInput\<lparr>touchStrip := Some (TouchStrip [7] [8])\<rparr>)"
  by (simp_all add: examplePlusOpen_def newDevice_def model_plus_def)

text \<open>
  Claim C6, as the code has it: on a model with a touch strip and with a touch-strip slot,
  a report (id 1) whose leading byte is 2 is a touch-strip report and byte 3 selects the
  event. Sub-types 1 and 2 start the touch handlers with the short or long type and one
  point, sub-type 3 starts the swipe handlers with two points; each coordinate is a
  16-bit value read little-endian, the low byte at offsets 5, 7, 9, 11 and the high byte
  at 6, 8, 10, 12. A touch report shorter than 9 bytes, a swipe report shorter than 13
  bytes and any other sub-type start nothing and are no error; the device is unchanged.
\<close>

theorem touchStrip_report_decoding:
  assumes "touchStripImageSend (model d) \<noteq> None"
    and "touchStripInput d = Some tsi"
    and "4 \<le> length buf"
    and "buf ! 0 = 2"
  shows "(buf ! 3 = 1 \<and> 9 \<le> length buf \<longrightarrow>
            listenIter d now (ReadOk 1 buf) =
              Inr (d, touch tsi TOUCH_STRIP_TOUCH_TYPE_SHORT
                        (Point (littleEndian16 (buf ! 5) (buf ! 6))
                               (littleEndian16 (buf ! 7) (buf ! 8))))) \<and>
         (buf ! 3 = 2 \<and> 9 \<le> length buf \<longrightarrow>
            listenIter d now (ReadOk 1 buf) =
              Inr (d, touch tsi TOUCH_STRIP_TOUCH_TYPE_LONG
                        (Point (littleEndian16 (buf ! 5) (buf ! 6))
                               (littleEndian16 (buf ! 7) (buf ! 8))))) \<and>
         (buf ! 3 = 3 \<and> 13 \<le> length buf \<longrightarrow>
            listenIter d now (ReadOk 1 buf) =
              Inr (d, swipe tsi
                        (Point (littleEndian16 (buf ! 5) (buf ! 6))
                               (littleEndian16 (buf ! 7) (buf ! 8)))
                        (Point (littleEndian16 (buf ! 9) (buf ! 10))
                               (littleEndian16 (buf ! 11) (buf ! 12))))) \<and>
         ((buf ! 3 = 1 \<or> buf ! 3 = 2) \<and> length buf < 9 \<longrightarrow>
            listenIter d now (ReadOk 1 buf) = Inr (d, [])) \<and>
         (buf ! 3 = 3 \<and> length buf < 13 \<longrightarrow>
            listenIter d now (ReadOk 1 buf) = Inr (d, [])) \<and>
         (buf ! 3 \<notin> {1, 2, 3} \<longrightarrow>
            listenIter d now (ReadOk 1 buf) = Inr (d, []))"
proof -
  from assms(3) have ne: "buf \<noteq> []" by auto
  have it: "listenIter d now (ReadOk 1 buf) = listenTouchStrip d buf"
    by (rule listenIter_touchStrip [OF assms(1) ne assms(4)])
  show ?thesis
    unfolding it using assms(2,3)
    by (simp add: listenTouchStrip_def goIndex_def coord_le)
qed

theorem touchStrip_report_decoding_witness:
  "listenIter examplePlusOpen 0 (ReadOk 1 [2, 0, 0, 1, 0, 0x34, 0x12, 0x50, 0]) =
     Inr (examplePlusOpen, [TouchLaunch 1 (Point 0x1234 0x50) 7]) \<and>
   listenIter examplePlusOpen 0 (ReadOk 1 [2, 0, 0, 2, 0, 0x34, 0x12, 0x50, 0]) =
     Inr (examplePlusOpen, [TouchLaunch 2 (Point 0x1234 0x50) 7]) \<and>
   listenIter examplePlusOpen 0
       (ReadOk 1 [2, 0, 0, 3, 0, 0x34, 0x12, 0x50, 0, 0x20, 0x03, 0x10, 0]) =
     Inr (examplePlusOpen, [SwipeLaunch (Point 0x1234 0x50) (Point 0x0320 0x10) 8]) \<and>
   listenIter examplePlusOpen 0 (ReadOk 1 [2, 0, 0, 1, 0, 0x34, 0x12, 0x50]) =
     Inr (examplePlusOpen, []) \<and>
   listenIter examplePlusOpen 0
       (ReadOk 1 [2, 0, 0, 3, 0, 0x34, 0x12, 0x50, 0, 0x20, 0x03, 0x10]) =
     Inr (examplePlusOpen, []) \<and>
   listenIter examplePlusOpen 0 (ReadOk 1 [2, 0, 0, 9, 0, 0x34, 0x12, 0x50, 0]) =
     Inr (examplePlusOpen, [])"
proof -
  note t = touchStrip_report_decoding [OF examplePlusOpen_strip, where now = 0]
  have 1: "listenIter examplePlusOpen 0 (ReadOk 1 [2, 0, 0, 1, 0, 0x34, 0x12, 0x50, 0]) =
     Inr (examplePlusOpen, [TouchLaunch 1 (Point 0x1234 0x50) 7])"
    using t [of "[2, 0, 0, 1, 0, 0x34, 0x12, 0x50, 0]", THEN conjunct1]
    by (simp add: touch_def littleEndian16_def TOUCH_STRIP_TOUCH_TYPE_SHORT_def)
  have 2: "listenIter examplePlusOpen 0 (ReadOk 1 [2, 0, 0, 2, 0, 0x34, 0x12, 0x50, 0]) =
     Inr (examplePlusOpen, [TouchLaunch 2 (Point 0x1234 0x50) 7])"
    using t [of "[2, 0, 0, 2, 0, 0x34, 0x12, 0x50, 0]", THEN conjunct2, THEN conjunct1]
    by (simp add: touch_def littleEndian16_def TOUCH_STRIP_TOUCH_TYPE_LONG_def)
  have 3: "listenIter examplePlusOpen 0
       (ReadOk 1 [2, 0, 0, 3, 0, 0x34, 0x12, 0x50, 0, 0x20, 0x03, 0x10, 0]) =
     Inr (examplePlusOpen, [SwipeLaunch (Point 0x1234 0x50) (Point 0x0320 0x10) 8])"
    using t [of "[2, 0, 0, 3, 0, 0x34, 0x12, 0x50, 0, 0x20, 0x03, 0x10, 0]",
             THEN conjunct2, THEN conjunct2, THEN conjunct1]
    by (simp add: swipe_def littleEndian16_def)
  have 4: "listenIter examplePlusOpen 0 (ReadOk 1 [2, 0, 0, 1, 0, 0x34, 0x12, 0x50]) =
     Inr (examplePlusOpen, [])"
    using t [of "[2, 0, 0, 1, 0, 0x34, 0x12, 0x50]",
             THEN conjunct2, THEN conjunct2, THEN conjunct2, THEN conjunct1]
    by simp
  have 5: "listenIter examplePlusOpen 0
       (ReadOk 1 [2, 0, 0, 3, 0, 0x34, 0x12, 0x50, 0, 0x20, 0x03, 0x10]) =
     Inr (examplePlusOpen, [])"
    using t [of "[2, 0, 0, 3, 0, 0x34, 0x12, 0x50, 0, 0x20, 0x03, 0x10]",
             THEN conjunct2, THEN conjunct2, THEN conjunct2, THEN conjunct2, THEN conjunct1]
    by simp
  have 6: "listenIter examplePlusOpen 0 (ReadOk 1 [2, 0, 0, 9, 0, 0x34, 0x12, 0x50, 0]) =
     Inr (examplePlusOpen, [])"
    using t [of "[2, 0, 0, 9, 0, 0x34, 0x12, 0x50, 0]",
             THEN conjunct2, THEN conjunct2, THEN conjunct2, THEN conjunct2, THEN conjunct2]
    by simp
  show ?thesis using 1 2 3 4 5 6 by blast
qed

text \<open>
  The claim as it was stated reads the coordinates big-endian. The report with bytes
  \<open>34 12\<close> at offsets 5 and 6 starts the handler with \<open>X = 0x1234\<close>, where the big-endian
  reading of the same two bytes is \<open>0x3412\<close>.
\<close>

theorem touchStrip_big_endian_counterexample:
  "listenIter examplePlusOpen 0 (ReadOk 1 [2, 0, 0, 1, 0, 0x34, 0x12, 0x50, 0]) =
     Inr (examplePlusOpen, [TouchLaunch 1 (Point 0x1234 0x50) 7]) \<and>
   bigEndian16 0x34 0x12 = 0x3412 \<and> bigEndian16 0x50 0 = 0x5000"
proof -
  have "listenIter examplePlusOpen 0 (ReadOk 1 [2, 0, 0, 1, 0, 0x34, 0x12, 0x50, 0]) =
          listenTouchStrip examplePlusOpen [2, 0, 0, 1, 0, 0x34, 0x12, 0x50, 0]"
    by (rule listenIter_touchStrip) (simp_all add: examplePlusOpen_strip)
  then show ?thesis
    by (simp add: listenTouchStrip_def examplePlusOpen_strip goIndex_def coord_le touch_def
          littleEndian16_def bigEndian16_def TOUCH_STRIP_TOUCH_TYPE_SHORT_def)
qed

section \<open>Polling loop: reports that select no capability\<close>

lemma edges_unchanged_aux:
  "edges t prev k (drop k prev) ins acc = Inr (ins, acc)"
proof (induction "length prev - k" arbitrary: k)
  case 0
  then show ?case by simp
next
  case (Suc n)
  then have k: "k < length prev" by simp
  then have d: "drop k prev = prev ! k # drop (Suc k) prev"
    by (simp add: Cons_nth_drop_Suc)
  from Suc have "n = length prev - Suc k" by simp
  then have "edges t prev (Suc k) (drop (Suc k) prev) ins acc = Inr (ins, acc)"
    by (rule Suc.hyps(1))
  then show ?case
    using k by (simp add: d goIndex_def)
qed

lemma edges_unchanged: "edges t prev 0 prev ins acc = Inr (ins, acc)"
  using edges_unchanged_aux [of t prev 0 ins acc] by simp

lemma listenKeys_unchanged:
  assumes "reportStates (model d) buf = Inr (keyStates d)"
  shows "listenKeys d now buf = Inr (d, [])"
proof -
  have "map_option (\<lambda>_. slots (inputs d)) (inputs d) = inputs d"
    by (cases "inputs d") (simp_all add: slots_def)
  then show ?thesis
    using assms by (simp add: listenKeys_def edges_unchanged)
qed

lemma listenIter_keys:
  assumes "buf \<noteq> []"
    and "\<not> (buf ! 0 = 2 \<and> touchStripImageSend (model d) \<noteq> None)"
    and "\<not> (buf ! 0 = 3 \<and> dialCount (model d) > 0)"
  shows "listenIter d now (ReadOk 1 buf) = listenKeys d now buf"
  using assms by (auto simp: listenIter_def goIndex_def)

text \<open>
  Claim C3, as the code has it. A report whose id is not 1 makes the loop return the
  unexpected-report-id error, and a failed read makes it return the error of the read.
  A report with id 1 whose leading byte is neither 2 on a model with a touch strip nor 3
  on a model with dials is read as a key report: that is no error, and when its monitored
  bytes equal the snapshot the loop goes on with the device unchanged and nothing started.
\<close>

theorem listen_unrecognised_report:
  "(rid \<noteq> 1 \<longrightarrow> listenIter d now (ReadOk rid buf) = Inl (ErrUnexpectedReportId rid)) \<and>
   (listen d = ChanOpen \<and> rid \<noteq> 1 \<longrightarrow>
      listenLoop d ((now, ReadOk rid buf) # rest) acc =
        (Returned (Some (ErrUnexpectedReportId rid)), d, acc)) \<and>
   (listen d = ChanOpen \<longrightarrow>
      listenLoop d ((now, ReadErr e) # rest) acc = (Returned (Some e), d, acc)) \<and>
   (buf \<noteq> [] \<and> \<not> (buf ! 0 = 2 \<and> touchStripImageSend (model d) \<noteq> None) \<and>
    \<not> (buf ! 0 = 3 \<and> dialCount (model d) > 0) \<longrightarrow>
      listenIter d now (ReadOk 1 buf) = listenKeys d now buf) \<and>
   (listen d = ChanOpen \<and> buf \<noteq> [] \<and>
    \<not> (buf ! 0 = 2 \<and> touchStripImageSend (model d) \<noteq> None) \<and>
    \<not> (buf ! 0 = 3 \<and> dialCount (model d) > 0) \<and>
    reportStates (model d) buf = Inr (keyStates d) \<longrightarrow>
      listenLoop d ((now, ReadOk 1 buf) # rest) acc = listenLoop d rest acc)"
proof -
  have a: "rid \<noteq> 1 \<longrightarrow> listenIter d now (ReadOk rid buf) = Inl (ErrUnexpectedReportId rid)"
    by (simp add: listenIter_def)
  have b: "listen d = ChanOpen \<and> rid \<noteq> 1 \<longrightarrow>
      listenLoop d ((now, ReadOk rid buf) # rest) acc =
        (Returned (Some (ErrUnexpectedReportId rid)), d, acc)"
    by (simp add: listenIter_def)
  have c: "listen d = ChanOpen \<longrightarrow>
      listenLoop d ((now, ReadErr e) # rest) acc = (Returned (Some e), d, acc)"
    by (simp add: listenIter_def)
  have e: "buf \<noteq> [] \<and> \<not> (buf ! 0 = 2 \<and> touchStripImageSend (model d) \<noteq> None) \<and>
    \<not> (buf ! 0 = 3 \<and> dialCount (model d) > 0) \<longrightarrow>
      listenIter d now (ReadOk 1 buf) = listenKeys d now buf"
    using listenIter_keys by blast
  have f: "listen d = ChanOpen \<and> buf \<noteq> [] \<and>
    \<not> (buf ! 0 = 2 \<and> touchStripImageSend (model d) \<noteq> None) \<and>
    \<not> (buf ! 0 = 3 \<and> dialCount (model d) > 0) \<and>
    reportStates (model d) buf = Inr (keyStates d) \<longrightarrow>
      listenLoop d ((now, ReadOk 1 buf) # rest) acc = listenLoop d rest acc"
    using listenIter_keys [of buf d now] listenKeys_unchanged [of d buf now] by auto
  from a b c e f show ?thesis by blast
qed

lemma exampleMk2Key1_facts:
  "listen exampleMk2Key1 = ChanOpen"
  "touchStripImageSend (model exampleMk2Key1) = None"
  "dialCount (model exampleMk2Key1) = 0"
  "keyStates exampleMk2Key1 = replicate 15 0"
  "reportStates (model exampleMk2Key1) (7 # replicate 17 0) = Inr (replicate 15 0)"
  by code_simp+

theorem listen_unrecognised_report_witness:
  "listenLoop exampleMk2Key1 [(5, ReadOk 2 (replicate 18 0))] [] =
     (Returned (Some (ErrUnexpectedReportId 2)), exampleMk2Key1, []) \<and>
   listenLoop exampleMk2Key1 [(5, ReadErr ErrGetInputReportFailed)] [] =
     (Returned (Some ErrGetInputReportFailed), exampleMk2Key1, []) \<and>
   listenLoop exampleMk2Key1 [(5, ReadOk 1 (7 # replicate 17 0))] [] =
     (Blocked, exampleMk2Key1, [])"
proof -
  note w = listen_unrecognised_report
             [of 2 exampleMk2Key1 5 "replicate 18 0" "[]" "[]" ErrGetInputReportFailed]
  note v = listen_unrecognised_report
             [of 1 exampleMk2Key1 5 "7 # replicate 17 0" "[]" "[]" ErrGetInputReportFailed]
  have 1: "listenLoop exampleMk2Key1 [(5, ReadOk 2 (replicate 18 0))] [] =
     (Returned (Some (ErrUnexpectedReportId 2)), exampleMk2Key1, [])"
    using w [THEN conjunct2, THEN conjunct1] by (simp add: exampleMk2Key1_facts)
  have 2: "listenLoop exampleMk2Key1 [(5, ReadErr ErrGetInputReportFailed)] [] =
     (Returned (Some ErrGetInputReportFailed), exampleMk2Key1, [])"
    using w [THEN conjunct2, THEN conjunct2, THEN conjunct1]
    by (simp add: exampleMk2Key1_facts)
  have 3: "listenLoop exampleMk2Key1 [(5, ReadOk 1 (7 # replicate 17 0))] [] =
     (Blocked, exampleMk2Key1, [])"
    using v [THEN conjunct2, THEN conjunct2, THEN conjunct2, THEN conjunct2]
    by (simp add: exampleMk2Key1_facts)
  show ?thesis using 1 2 3 by blast
qed

text \<open>
  The claim as it was stated fails twice on an MK.2, which has neither touch strip nor
  dials. A report with id 2 is read without any I/O failure, yet the loop returns an error.
  A report with id 1 whose leading byte is 2 (the touch-strip value, a capability that is
  not active on this model) and whose byte 3 is set is read as a key report and starts the
  handler of key 1.
\<close>

theorem listen_unrecognised_report_counterexample:
  "fst (listenLoop exampleMk2Key1 [(5, ReadOk 2 (replicate 18 0))] []) =
     Returned (Some (ErrUnexpectedReportId 2)) \<and>
   touchStripImageSend (model exampleMk2Key1) = None \<and>
   map_sum id snd (listenIter exampleMk2Key1 5 (ReadOk 1 ([2, 0, 0, 1] @ replicate 14 0))) =
     Inr [KeyLaunch 1 7]"
  by code_simp

section \<open>Device facade: the closed device\<close>

lemma closed_validateOpen: "\<not> IsOpen d \<Longrightarrow> validateOpen d = Some ErrDeviceIsClosed"
  by (simp add: validateOpen_def)

lemma AddKeyHandler_not_closed: "AddKeyHandler d k fn \<noteq> Inl ErrDeviceIsClosed"
  by (auto simp: AddKeyHandler_def validateKey_def Let_def split: option.splits)

lemma AddTouchPointHandler_not_closed: "AddTouchPointHandler d p fn \<noteq> Inl ErrDeviceIsClosed"
  by (auto simp: AddTouchPointHandler_def validateTouchPoint_def Let_def split: option.splits)

lemma AddDialSwitchHandler_not_closed: "AddDialSwitchHandler d di fn \<noteq> Inl ErrDeviceIsClosed"
  by (auto simp: AddDialSwitchHandler_def validateDial_def Let_def split: option.splits)

lemma AddDialRotateHandler_not_closed: "AddDialRotateHandler d di fn \<noteq> Inl ErrDeviceIsClosed"
  by (auto simp: AddDialRotateHandler_def validateDial_def Let_def split: option.splits)

lemma AddTouchStripTouchHandler_not_closed:
  "AddTouchStripTouchHandler d fn \<noteq> Inl ErrDeviceIsClosed"
  by (auto simp: AddTouchStripTouchHandler_def validateTouchStrip_def Let_def
           split: option.splits)

lemma AddTouchStripSwipeHandler_not_closed:
  "AddTouchStripSwipeHandler d fn \<noteq> Inl ErrDeviceIsClosed"
  by (auto simp: AddTouchStripSwipeHandler_def validateTouchStrip_def Let_def
           split: option.splits)

lemmas guarded_defs =
  Listen_def
  Close_def
  SetKeyImage_def
  SetKeyImageFromReader_def
  SetKeyImageFromReadCloser_def
  SetKeyImageFromFile_def
  SetKeyImageFromFS_def
  SetKeyColor_def
  ClearKey_def
  SetInfoBarImage_def
  SetInfoBarImageFromReader_def
  SetInfoBarImageFromReadCloser_def
  SetInfoBarImageFromFile_def
  SetInfoBarImageFromFS_def
  SetInfoBarColor_def
  ClearInfoBar_def
  SetTouchStripImageWithRectangle_def
  SetTouchStripImage_def
  SetTouchStripImageFromReaderWithRectangle_def
  SetTouchStripImageFromReader_def
  SetTouchStripImageFromReadCloserWithRectangle_def
  SetTouchStripImageFromReadCloser_def
  SetTouchStripImageFromFileWithRectangle_def
  SetTouchStripImageFromFile_def
  SetTouchStripImageFromFSWithRectangle_def
  SetTouchStripImageFromFS_def
  SetTouchStripColorWithRectangle_def
  SetTouchStripColor_def
  ClearTouchStripWithRectangle_def
  ClearTouchStrip_def
  GetFirmwareVersion_def
  Reset_def
  SetBrightness_def
  SetTouchPointColor_def
  ClearTouchPoint_def

lemmas unguarded_facts =
  AddKeyHandler_not_closed AddTouchPointHandler_not_closed AddDialSwitchHandler_not_closed
  AddDialRotateHandler_not_closed AddTouchStripTouchHandler_not_closed
  AddTouchStripSwipeHandler_not_closed

text \<open>
  Claim C4, as the code has it. On a device that is not open, every operation that starts
  with \<^verbatim>\<open>validateOpen\<close> returns the already-closed error: \<^verbatim>\<open>Listen\<close>, \<^verbatim>\<open>Close\<close>,
  \<^verbatim>\<open>GetFirmwareVersion\<close>, \<^verbatim>\<open>Reset\<close>, \<^verbatim>\<open>SetBrightness\<close> and all the operations
  that set or clear a key, the info bar, a touch point or the touch strip. The handler
  registrations never return that error, on any device, and the rectangle getters never do
  either: they do not look at the open flag.
\<close>

theorem closed_device_rejects:
  assumes "\<not> IsOpen d"
  shows "Listen d reads = (Returned (Some ErrDeviceIsClosed), d, []) \<and>
        Close lib d = Some (Inl ErrDeviceIsClosed) \<and>
        SetKeyImage lib d k img = Some (Inl ErrDeviceIsClosed) \<and>
        SetKeyImageFromReader lib d k rd = Some (Inl ErrDeviceIsClosed) \<and>
        SetKeyImageFromReadCloser lib d k rd = Some (Inl ErrDeviceIsClosed) \<and>
        SetKeyImageFromFile lib d k fname = Some (Inl ErrDeviceIsClosed) \<and>
        SetKeyImageFromFS lib d k ffs fname = Some (Inl ErrDeviceIsClosed) \<and>
        SetKeyColor lib d k c = Some (Inl ErrDeviceIsClosed) \<and>
        ClearKey lib d k = Some (Inl ErrDeviceIsClosed) \<and>
        SetInfoBarImage lib d img = Some (Inl ErrDeviceIsClosed) \<and>
        SetInfoBarImageFromReader lib d rd = Some (Inl ErrDeviceIsClosed) \<and>
        SetInfoBarImageFromReadCloser lib d rd = Some (Inl ErrDeviceIsClosed) \<and>
        SetInfoBarImageFromFile lib d fname = Some (Inl ErrDeviceIsClosed) \<and>
        SetInfoBarImageFromFS lib d ffs fname = Some (Inl ErrDeviceIsClosed) \<and>
        SetInfoBarColor lib d c = Some (Inl ErrDeviceIsClosed) \<and>
        ClearInfoBar lib d = Some (Inl ErrDeviceIsClosed) \<and>
        SetTouchStripImageWithRectangle lib d img rc = Some (Inl ErrDeviceIsClosed) \<and>
        SetTouchStripImage lib d img = Some (Inl ErrDeviceIsClosed) \<and>
        SetTouchStripImageFromReaderWithRectangle lib d rd rc = Some (Inl ErrDeviceIsClosed) \<and>
        SetTouchStripImageFromReader lib d rd = Some (Inl ErrDeviceIsClosed) \<and>
        SetTouchStripImageFromReadCloserWithRectangle lib d rd rc = Some (Inl ErrDeviceIsClosed) \<and>
        SetTouchStripImageFromReadCloser lib d rd = Some (Inl ErrDeviceIsClosed) \<and>
        SetTouchStripImageFromFileWithRectangle lib d fname rc = Some (Inl ErrDeviceIsClosed) \<and>
        SetTouchStripImageFromFile lib d fname = Some (Inl ErrDeviceIsClosed) \<and>
        SetTouchStripImageFromFSWithRectangle lib d ffs fname rc = Some (Inl ErrDeviceIsClosed) \<and>
        SetTouchStripImageFromFS lib d ffs fname = Some (Inl ErrDeviceIsClosed) \<and>
        SetTouchStripColorWithRectangle lib d c rc = Some (Inl ErrDeviceIsClosed) \<and>
        SetTouchStripColor lib d c = Some (Inl ErrDeviceIsClosed) \<and>
        ClearTouchStripWithRectangle lib d rc = Some (Inl ErrDeviceIsClosed) \<and>
        ClearTouchStrip lib d = Some (Inl ErrDeviceIsClosed) \<and>
        GetFirmwareVersion d = Inl ErrDeviceIsClosed \<and>
        Reset d = Inl ErrDeviceIsClosed \<and>
        SetBrightness d perc = Inl ErrDeviceIsClosed \<and>
        SetTouchPointColor d p c = Inl ErrDeviceIsClosed \<and>
        ClearTouchPoint d p = Inl ErrDeviceIsClosed \<and>
        AddKeyHandler d k fn \<noteq> Inl ErrDeviceIsClosed \<and>
        AddTouchPointHandler d p fn \<noteq> Inl ErrDeviceIsClosed \<and>
        AddDialSwitchHandler d di fn \<noteq> Inl ErrDeviceIsClosed \<and>
        AddDialRotateHandler d di fn \<noteq> Inl ErrDeviceIsClosed \<and>
        AddTouchStripTouchHandler d fn \<noteq> Inl ErrDeviceIsClosed \<and>
        AddTouchStripSwipeHandler d fn \<noteq> Inl ErrDeviceIsClosed \<and>
        GetKeyImageRectangle d = Inr (keyImageRect (model d)) \<and>
        GetInfoBarImageRectangle d \<noteq> Inl ErrDeviceIsClosed \<and>
        GetTouchStripImageRectangle d \<noteq> Inl ErrDeviceIsClosed"
  using assms
  by (intro conjI)
     (simp_all add: guarded_defs closed_validateOpen unguarded_facts
        GetKeyImageRectangle_def GetInfoBarImageRectangle_def
        GetTouchStripImageRectangle_def)

lemma exampleMk2_closed: "\<not> IsOpen exampleMk2"
  by (simp add: exampleMk2_def newDevice_def IsOpen_def)

theorem closed_device_rejects_witness:
  "\<not> IsOpen exampleMk2 \<and>
   Listen exampleMk2 [] = (Returned (Some ErrDeviceIsClosed), exampleMk2, []) \<and>
   Close exampleLib exampleMk2 = Some (Inl ErrDeviceIsClosed) \<and>
   SetKeyImage exampleLib exampleMk2 1 None = Some (Inl ErrDeviceIsClosed) \<and>
   SetKeyImageFromReader exampleLib exampleMk2 1 None = Some (Inl ErrDeviceIsClosed) \<and>
   SetKeyImageFromReadCloser exampleLib exampleMk2 1 None = Some (Inl ErrDeviceIsClosed) \<and>
   SetKeyImageFromFile exampleLib exampleMk2 1 ''a.png'' = Some (Inl ErrDeviceIsClosed) \<and>
   SetKeyImageFromFS exampleLib exampleMk2 1 (\<lambda>n. Inl (ErrExternal 1)) ''a.png'' = Some (Inl ErrDeviceIsClosed) \<and>
   SetKeyColor exampleLib exampleMk2 1 color_Black = Some (Inl ErrDeviceIsClosed) \<and>
   ClearKey exampleLib exampleMk2 1 = Some (Inl ErrDeviceIsClosed) \<and>
   SetInfoBarImage exampleLib exampleMk2 None = Some (Inl ErrDeviceIsClosed) \<and>
   SetInfoBarImageFromReader exampleLib exampleMk2 None = Some (Inl ErrDeviceIsClosed) \<and>
   SetInfoBarImageFromReadCloser exampleLib exampleMk2 None = Some (Inl ErrDeviceIsClosed) \<and>
   SetInfoBarImageFromFile exampleLib exampleMk2 ''a.png'' = Some (Inl ErrDeviceIsClosed) \<and>
   SetInfoBarImageFromFS exampleLib exampleMk2 (\<lambda>n. Inl (ErrExternal 1)) ''a.png'' = Some (Inl ErrDeviceIsClosed) \<and>
   SetInfoBarColor exampleLib exampleMk2 color_Black = Some (Inl ErrDeviceIsClosed) \<and>
   ClearInfoBar exampleLib exampleMk2 = Some (Inl ErrDeviceIsClosed) \<and>
   SetTouchStripImageWithRectangle exampleLib exampleMk2 None zeroRect = Some (Inl ErrDeviceIsClosed) \<and>
   SetTouchStripImage exampleLib exampleMk2 None = Some (Inl ErrDeviceIsClosed) \<and>
   SetTouchStripImageFromReaderWithRectangle exampleLib exampleMk2 None zeroRect = Some (Inl ErrDeviceIsClosed) \<and>
   SetTouchStripImageFromReader exampleLib exampleMk2 None = Some (Inl ErrDeviceIsClosed) \<and>
   SetTouchStripImageFromReadCloserWithRectangle exampleLib exampleMk2 None zeroRect = Some (Inl ErrDeviceIsClosed) \<and>
   SetTouchStripImageFromReadCloser exampleLib exampleMk2 None = Some (Inl ErrDeviceIsClosed) \<and>
   SetTouchStripImageFromFileWithRectangle exampleLib exampleMk2 ''a.png'' zeroRect = Some (Inl ErrDeviceIsClosed) \<and>
   SetTouchStripImageFromFile exampleLib exampleMk2 ''a.png'' = Some (Inl ErrDeviceIsClosed) \<and>
   SetTouchStripImageFromFSWithRectangle exampleLib exampleMk2 (\<lambda>n. Inl (ErrExternal 1)) ''a.png'' zeroRect = Some (Inl ErrDeviceIsClosed) \<and>
   SetTouchStripImageFromFS exampleLib exampleMk2 (\<lambda>n. Inl (ErrExternal 1)) ''a.png'' = Some (Inl ErrDeviceIsClosed) \<and>
   SetTouchStripColorWithRectangle exampleLib exampleMk2 color_Black zeroRect = Some (Inl ErrDeviceIsClosed) \<and>
   SetTouchStripColor exampleLib exampleMk2 color_Black = Some (Inl ErrDeviceIsClosed) \<and>
   ClearTouchStripWithRectangle exampleLib exampleMk2 zeroRect = Some (Inl ErrDeviceIsClosed) \<and>
   ClearTouchStrip exampleLib exampleMk2 = Some (Inl ErrDeviceIsClosed) \<and>
   GetFirmwareVersion exampleMk2 = Inl ErrDeviceIsClosed \<and>
   Reset exampleMk2 = Inl ErrDeviceIsClosed \<and>
   SetBrightness exampleMk2 50 = Inl ErrDeviceIsClosed \<and>
   SetTouchPointColor exampleMk2 1 color_Black = Inl ErrDeviceIsClosed \<and>
   ClearTouchPoint exampleMk2 1 = Inl ErrDeviceIsClosed \<and>
   AddKeyHandler exampleMk2 1 (Some 7) \<noteq> Inl ErrDeviceIsClosed \<and>
   AddTouchPointHandler exampleMk2 1 (Some 7) \<noteq> Inl ErrDeviceIsClosed \<and>
   AddDialSwitchHandler exampleMk2 1 (Some 7) \<noteq> Inl ErrDeviceIsClosed \<and>
   AddDialRotateHandler exampleMk2 1 (Some 7) \<noteq> Inl ErrDeviceIsClosed \<and>
   AddTouchStripTouchHandler exampleMk2 (Some 7) \<noteq> Inl ErrDeviceIsClosed \<and>
   AddTouchStripSwipeHandler exampleMk2 (Some 7) \<noteq> Inl ErrDeviceIsClosed \<and>
   GetKeyImageRectangle exampleMk2 = Inr (keyImageRect (model exampleMk2)) \<and>
   GetInfoBarImageRectangle exampleMk2 \<noteq> Inl ErrDeviceIsClosed \<and>
   GetTouchStripImageRectangle exampleMk2 \<noteq> Inl ErrDeviceIsClosed"
  using exampleMk2_closed
        closed_device_rejects [OF exampleMk2_closed, where reads = "[]" and lib = exampleLib
          and k = 1 and img = None and rd = None and fname = "''a.png''"
          and ffs = "\<lambda>n. Inl (ErrExternal 1)" and c = color_Black and rc = zeroRect
          and perc = 50 and p = 1 and fn = "Some 7" and di = 1]
  by (rule conjI)

text \<open>
  The claim as it was stated fails on an MK.2 that was never opened: registering a handler
  for key 1 succeeds, and the key count is returned as a plain value.
\<close>

theorem closed_device_counterexample:
  "\<not> IsOpen exampleMk2 \<and>
   \<not> isl (AddKeyHandler exampleMk2 1 (Some 7)) \<and>
   GetKeyCount exampleMk2 = 15"
  by code_simp

section \<open>Polling loop: one key pressed and released\<close>

lemma edges_single_aux:
  assumes "i < length prev" and "v \<noteq> prev ! i" and "k \<le> i"
  shows "edges t prev k (drop k (prev[i := v])) ins acc =
           (if i \<ge> length ins then Inr (ins, acc)
            else if v > 0
            then Inr (ins[i := fst (press (ins ! i) t)], acc @ snd (press (ins ! i) t))
            else (case release (ins ! i) t of
                    Inl e \<Rightarrow> Inl e
                  | Inr inp' \<Rightarrow> Inr (ins[i := inp'], acc)))"
  using assms(3)
proof (induction "i - k" arbitrary: k)
  case 0
  then have ki: "k = i" by simp
  have d: "drop i (prev[i := v]) = v # drop (Suc i) prev"
    using assms(1) by (simp add: drop_update_cancel Cons_nth_drop_Suc [symmetric])
  show ?case
    unfolding ki d using assms(1,2)
    by (simp add: goIndex_def edges_unchanged_aux split: sum.splits)
next
  case (Suc n)
  then have lt: "k < i" by simp
  then have klen: "k < length prev" using assms(1) by simp
  have d: "drop k (prev[i := v]) = prev ! k # drop (Suc k) (prev[i := v])"
    using klen lt by (simp add: Cons_nth_drop_Suc [symmetric])
  from Suc have "n = i - Suc k" "Suc k \<le> i" by simp_all
  then have ih: "edges t prev (Suc k) (drop (Suc k) (prev[i := v])) ins acc =
           (if i \<ge> length ins then Inr (ins, acc)
            else if v > 0
            then Inr (ins[i := fst (press (ins ! i) t)], acc @ snd (press (ins ! i) t))
            else (case release (ins ! i) t of
                    Inl e \<Rightarrow> Inl e
                  | Inr inp' \<Rightarrow> Inr (ins[i := inp'], acc)))"
    using Suc.hyps(1) by blast
  show ?case
    unfolding d using klen by (simp add: goIndex_def ih)
qed

lemma edges_single:
  assumes "i < length prev" and "v \<noteq> prev ! i"
  shows "edges t prev 0 (prev[i := v]) ins acc =
           (if i \<ge> length ins then Inr (ins, acc)
            else if v > 0
            then Inr (ins[i := fst (press (ins ! i) t)], acc @ snd (press (ins ! i) t))
            else (case release (ins ! i) t of
                    Inl e \<Rightarrow> Inl e
                  | Inr inp' \<Rightarrow> Inr (ins[i := inp'], acc)))"
  using edges_single_aux [OF assms, of 0 t ins acc] by simp









text \<open>
  The dial switches go through the same edge loop: on a model with dials, a dial report
  (leading byte 3, sub-type 0) in which the byte of dial slot \<open>i\<close> goes from 0 to a
  non-zero value presses that slot alone, and the report in which it is 0 again releases
  it.
\<close>

lemma listenIter_dial:
  assumes "3 < length buf" and "buf ! 0 = 3" and "buf ! 3 = 0" and "dialCount (model d) > 0"
    and "goSlice buf (unat (dialStart (model d)))
           (unat (dialStart (model d) + dialCount (model d))) = Inr states"
  shows "listenIter d t (ReadOk 1 buf) =
           (case edges t (dialStates d) 0 states (slots (dialInputs d)) [] of
              Inl e \<Rightarrow> Inl e
            | Inr r \<Rightarrow>
                Inr (d\<lparr>dialInputs := map_option (\<lambda>_. fst r) (dialInputs d),
                        dialStates := states\<rparr>, snd r))"
  using assms by (auto simp: listenIter_def listenDial_def goIndex_def)

lemma dial_press_release_cycle:
  assumes "listen d = ChanOpen"
    and "dialInputs d = Some ins" and "i < length ins" and "i < length (dialStates d)"
    and "dialStates d ! i = 0" and "v \<noteq> 0"
    and "dialCount (model d) > 0"
    and "3 < length buf1" and "buf1 ! 0 = 3" and "buf1 ! 3 = 0"
    and "3 < length buf2" and "buf2 ! 0 = 3" and "buf2 ! 3 = 0"
    and "goSlice buf1 (unat (dialStart (model d)))
           (unat (dialStart (model d) + dialCount (model d))) = Inr ((dialStates d)[i := v])"
    and "goSlice buf2 (unat (dialStart (model d)))
           (unat (dialStart (model d) + dialCount (model d))) = Inr (dialStates d)"
  shows "listenLoop d [(t1, ReadOk 1 buf1), (t2, ReadOk 1 buf2)] [] =
           (Blocked,
            d\<lparr>dialInputs := Some (ins[i := (ins ! i)\<lparr>released := t2,
                                         duration := time_Sub t2 t1,
                                         pressed := 0, channel := ChanClosed\<rparr>])\<rparr>,
            snd (press (ins ! i) t1))"
proof -
  let ?ins1 = "ins[i := fst (press (ins ! i) t1)]"
  let ?d1 = "d\<lparr>dialInputs := Some ?ins1, dialStates := (dialStates d)[i := v]\<rparr>"
  have v: "v \<noteq> dialStates d ! i" "v > 0"
    using assms(5,6) by (simp_all add: word_greater_zero_iff)
  have s1: "listenIter d t1 (ReadOk 1 buf1) = Inr (?d1, snd (press (ins ! i) t1))"
    using assms(2,3) v(2)
    by (simp add: listenIter_dial [OF assms(8,9,10,7,14)] slots_def
          edges_single [OF assms(4) v(1)])
  have undo: "((dialStates d)[i := v])[i := 0] = dialStates d"
    using assms(4,5) by (simp add: list_update_same_conv)
  have same: "(dialStates d)[i := 0] = dialStates d"
    using assms(4,5) by (simp add: list_update_same_conv)
  have g2: "goSlice buf2 (unat (dialStart (model ?d1)))
              (unat (dialStart (model ?d1) + dialCount (model ?d1))) =
            Inr ((dialStates ?d1)[i := 0])"
    using assms(15) undo by simp
  have dc: "dialCount (model ?d1) > 0" using assms(7) by simp
  have rel: "release (?ins1 ! i) t2 =
               Inr ((ins ! i)\<lparr>released := t2, duration := time_Sub t2 t1,
                               pressed := 0, channel := ChanClosed\<rparr>)"
    using assms(3) by (simp add: press_state release_pressed)
  have z1: "0 \<noteq> ((dialStates d)[i := v]) ! i" "i < length ((dialStates d)[i := v])"
    using assms(4,6) by simp_all
  have e2: "edges t2 ((dialStates d)[i := v]) 0 (((dialStates d)[i := v])[i := 0]) ?ins1 [] =
              Inr (?ins1[i := (ins ! i)\<lparr>released := t2, duration := time_Sub t2 t1,
                                          pressed := 0, channel := ChanClosed\<rparr>], [])"
    using assms(3) by (simp only: edges_single [OF z1(2) z1(1)] rel) simp
  have s2: "listenIter ?d1 t2 (ReadOk 1 buf2) =
              Inr (d\<lparr>dialInputs := Some (ins[i := (ins ! i)\<lparr>released := t2,
                                         duration := time_Sub t2 t1,
                                         pressed := 0, channel := ChanClosed\<rparr>])\<rparr>, [])"
    unfolding listenIter_dial [OF assms(11,12,13) dc g2]
    using e2 by (simp add: slots_def same)
  show ?thesis
    using assms(1) by (simp add: s1 s2)
qed

section \<open>Image codec: the quarter turn\<close>



lemma pixelFor_other: "ifmt \<noteq> imageFormatBMP \<Longrightarrow> pixelFor ifmt c = c"
  by (simp add: pixelFor_def)




















section \<open>Protocol framer: a payload of 65536 bytes\<close>

lemma plus_header:
  "(replicate 15 0)
     [0 := 12,
      1 := of_int (ptX (rmin (Rect 0 0 800 100))),
      2 := of_int (ptX (rmin (Rect 0 0 800 100)) div 256),
      3 := of_int (ptY (rmin (Rect 0 0 800 100))),
      4 := of_int (ptY (rmin (Rect 0 0 800 100)) div 256),
      5 := of_int (Dx (Rect 0 0 800 100)), 6 := of_int (Dx (Rect 0 0 800 100) div 256),
      7 := of_int (Dy (Rect 0 0 800 100)), 8 := of_int (Dy (Rect 0 0 800 100) div 256)] =
   [12, 0, 0, 0, 0, 32, 3, 100, 0, 0, 0, 0, 0, 0, 0 :: byte]"
  by code_simp

lemma exampleUsbOpen_facts:
  "outputReportLength exampleUsbOpen = 1024"
  "isOpen exampleUsbOpen"
  "outputReports exampleUsbOpen = []"
  "\<not> outputFails exampleUsbOpen n"
  by (simp_all add: exampleUsbOpen_def exampleUsb_def)

text \<open>
  Claim C1 at a payload of 65536 bytes, sent to the touch strip of a Plus (the whole strip,
  800 by 100 pixels) with reports of 1024 bytes: \<^verbatim>\<open>uint16(len(imgData))\<close> is 0, so the
  first page is already the last one. One report is written; it is marked last (byte 9),
  its size field (bytes 12 and 13) is 0 and it is all padding after the 15 bytes of the
  header: not one byte of the payload is sent, and the send reports success.
\<close>

theorem imageSend_long_payload:
  "plus_touchStripImageSend exampleUsbOpen (replicate 65536 0xAB) (Rect 0 0 800 100) =
     Some (Inr (exampleUsbOpen
       \<lparr>outputReports :=
          [(2, [12, 0, 0, 0, 0, 32, 3, 100, 0, 1, 0, 0, 0, 0, 0] @ replicate 1009 0)]\<rparr>))"
proof -
  have l: "(of_nat (length (replicate 65536 (0xAB :: byte))) :: uint16) = 0"
    by simp
  show ?thesis
    unfolding plus_touchStripImageSend_def imageSend_def plus_header
    apply (simp only: option.case)
    apply (subst imageSend_loop.simps)
    apply (simp only: l Let_def exampleUsbOpen_facts)
    apply (simp add: goSlice_def plus_updateCb_def SetOutputReport_def exampleUsbOpen_facts)
    done
qed

section \<open>Protocol framer: payloads that fit 16-bit offsets\<close>

lemma spec_chunks_last: "c = 0 \<or> length xs \<le> c \<Longrightarrow> spec_chunks c xs = [xs]"
  by (subst spec_chunks.simps) simp

lemma spec_chunks_more:
  "0 < c \<Longrightarrow> c < length xs \<Longrightarrow> spec_chunks c xs = take c xs # spec_chunks c (drop c xs)"
  by (subst spec_chunks.simps) simp

lemma concat_spec_chunks: "concat (spec_chunks c xs) = xs"
proof (induction c xs rule: spec_chunks.induct)
  case (1 c xs)
  show ?case
  proof (cases "c = 0 \<or> length xs \<le> c")
    case True
    then show ?thesis by (simp add: spec_chunks_last)
  next
    case False
    then show ?thesis using "1.IH" by (simp add: spec_chunks_more)
  qed
qed

lemma spec_chunks_bound:
  "0 < c \<Longrightarrow> ch \<in> set (spec_chunks c xs) \<Longrightarrow> length ch \<le> c"
proof (induction c xs rule: spec_chunks.induct)
  case (1 c xs)
  show ?case
  proof (cases "length xs \<le> c")
    case True
    then show ?thesis using "1.prems" by (simp add: spec_chunks_last)
  next
    case False
    then show ?thesis using "1.prems" "1.IH" by (auto simp: spec_chunks_more)
  qed
qed

lemma length_spec_writes: "length (spec_writes s ws) = length s"
  by (induction ws arbitrary: s) simp_all

lemma applyWrites_in_range:
  "\<forall>w \<in> set ws. fst w < length s \<Longrightarrow> applyWrites s ws = Inr (spec_writes s ws)"
proof (induction ws arbitrary: s)
  case Nil
  then show ?case by simp
next
  case (Cons w ws)
  then show ?case by (cases w) simp
qed

lemma length_spec_reports: "length (spec_reports cb n hdr page chs) = length chs"
  by (induction chs arbitrary: hdr page) simp_all

lemma spec_reports_length:
  assumes "\<forall>ch \<in> set chs. length hdr + length ch \<le> n"
    and "r \<in> set (spec_reports cb n hdr page chs)"
  shows "length r = n"
  using assms
proof (induction chs arbitrary: hdr page)
  case Nil
  then show ?case by simp
next
  case (Cons ch chs)
  let ?h = "spec_writes hdr (cb hdr page (if chs = [] then 1 else 0) (of_nat (length ch)))"
  from Cons.prems(2) consider
      "r = ?h @ ch @ replicate (n - length hdr - length ch) 0"
    | "r \<in> set (spec_reports cb n ?h (page + 1) chs)"
    by auto
  then show ?case
  proof cases
    case 1
    then show ?thesis using Cons.prems(1) by (simp add: length_spec_writes)
  next
    case 2
    have "\<forall>c \<in> set chs. length ?h + length c \<le> n"
      using Cons.prems(1) by (simp add: length_spec_writes)
    then show ?thesis using 2 by (rule Cons.IH)
  qed
qed

lemma unat_of_nat16: "k < 65536 \<Longrightarrow> unat (of_nat k :: uint16) = k"
  by (simp add: unat_of_nat)

lemma spec_chunks_not_Nil: "spec_chunks c xs \<noteq> []"
  by (subst spec_chunks.simps) simp

lemma SetOutputReport_ok:
  "isOpen u \<Longrightarrow> \<forall>n. \<not> outputFails u n \<Longrightarrow>
   SetOutputReport u rid payload = Inr (u\<lparr>outputReports := outputReports u @ [(rid, payload)]\<rparr>)"
  by (simp add: SetOutputReport_def)

text \<open>
  The loop from offset \<open>s\<close>, as long as the offsets fit in 16 bits: it returns, and it has
  written the reports of the chunks of the rest of the payload.
\<close>

lemma imageSend_loop_pages:
  assumes "isOpen u" and "\<forall>n. \<not> outputFails u n"
    and "length hdr < unat (outputReportLength u)"
    and "s + (unat (outputReportLength u) - length hdr) < 65536"
    and "length payload + (unat (outputReportLength u) - length hdr) \<le> 65536"
    and "s \<le> length payload"
    and "\<forall>h p l z. length h = length hdr \<longrightarrow> (\<forall>w \<in> set (cb h p l z). fst w < length hdr)"
  shows "imageSend_loop u rid hdr payload cb (of_nat s) page =
           Some (Inr (u\<lparr>outputReports := outputReports u @ map (Pair rid)
             (spec_reports cb (unat (outputReportLength u)) hdr page
                (spec_chunks (unat (outputReportLength u) - length hdr) (drop s payload)))\<rparr>))"
  using assms
proof (induction "length payload - s" arbitrary: s u hdr page rule: less_induct)
  case less
  let ?N = "unat (outputReportLength u)"
  let ?c = "?N - length hdr"
  have c: "0 < ?c" using less.prems(3) by simp
  have N: "?N < 65536" using unsigned_less [of "outputReportLength u", where ?'a = nat] by simp
  have len: "length payload < 65536" using less.prems(5) c by simp
  have w1: "of_nat s + outputReportLength u - of_nat (length hdr) = (of_nat (s + ?c) :: uint16)"
  proof -
    have "(of_nat ?c :: uint16) = of_nat ?N - of_nat (length hdr)"
      using less.prems(3) by (simp add: of_nat_diff)
    then show ?thesis by simp
  qed
  have u1: "unat (of_nat (s + ?c) :: uint16) = s + ?c"
    using less.prems(4) by (rule unat_of_nat16)
  have ul: "unat (of_nat (length payload) :: uint16) = length payload"
    using len by (rule unat_of_nat16)
  have us: "unat (of_nat s :: uint16) = s"
    using less.prems(4) by (simp add: unat_of_nat16)
  have cmp: "(of_nat (length payload) :: uint16) \<le> of_nat (s + ?c) \<longleftrightarrow>
             length payload \<le> s + ?c"
    by (simp only: word_le_nat_alt u1 ul)
  have pad: "unat (outputReportLength u - of_nat k) = ?N - k" if "k \<le> ?N" for k
  proof -
    have k: "unat (of_nat k :: uint16) = k"
      using that N by (simp add: unat_of_nat16)
    then have "(of_nat k :: uint16) \<le> outputReportLength u"
      using that by (simp add: word_le_nat_alt)
    then show ?thesis by (simp add: unat_sub k)
  qed
  show ?case
  proof (cases "length payload \<le> s + ?c")
    case True
    let ?ch = "drop s payload"
    let ?h = "spec_writes hdr (cb hdr page 1 (of_nat (length ?ch)))"
    have sl: "goSlice payload s (length payload) = Inr ?ch"
      using less.prems(6) by (simp add: goSlice_def)
    have aw: "applyWrites hdr (cb hdr page 1 (of_nat (length ?ch))) = Inr ?h"
      using less.prems(7) by (intro applyWrites_in_range) simp
    have lc: "length ?ch \<le> ?c"
      using True by (simp add: le_diff_conv add.commute)
    have k: "length (?h @ ?ch) \<le> ?N"
      using lc less.prems(3) by (simp add: length_spec_writes)
    have sc: "spec_chunks ?c ?ch = [?ch]"
      using lc by (intro spec_chunks_last) (rule disjI2)
    show ?thesis
      apply (subst imageSend_loop.simps)
      apply (simp only: Let_def w1 cmp True if_True us ul sl sum.case aw pad [OF k]
               SetOutputReport_ok [OF less.prems(1,2)])
      apply (simp add: sc length_spec_writes)
      done
  next
    case False
    let ?ch = "take ?c (drop s payload)"
    let ?h = "spec_writes hdr (cb hdr page 0 (of_nat (length ?ch)))"
    have lch: "length ?ch = ?c" using False by simp
    have sl: "goSlice payload s (s + ?c) = Inr ?ch"
      using False by (simp add: goSlice_def)
    have aw: "applyWrites hdr (cb hdr page 0 (of_nat (length ?ch))) = Inr ?h"
      using less.prems(7) by (intro applyWrites_in_range) simp
    have k: "length (?h @ ?ch) \<le> ?N"
      using less.prems(3) False by (simp add: length_spec_writes)
    let ?u = "u\<lparr>outputReports := outputReports u @
                 [(rid, (?h @ ?ch) @ replicate (?N - length (?h @ ?ch)) 0)]\<rparr>"
    have lh: "length ?h = length hdr" by (simp add: length_spec_writes)
    have w2: "of_nat s + outputReportLength ?u - of_nat (length ?h) = (of_nat (s + ?c) :: uint16)"
      using w1 by (simp add: length_spec_writes)
    have ih: "imageSend_loop ?u rid ?h payload cb (of_nat (s + ?c)) (page + 1) =
           Some (Inr (?u\<lparr>outputReports := outputReports ?u @ map (Pair rid)
             (spec_reports cb (unat (outputReportLength ?u)) ?h (page + 1)
                (spec_chunks (unat (outputReportLength ?u) - length ?h)
                   (drop (s + ?c) payload)))\<rparr>))"
    proof (rule less.hyps)
      show "length payload - (s + ?c) < length payload - s"
        using False c by simp
      show "isOpen ?u" using less.prems(1) by simp
      show "\<forall>n. \<not> outputFails ?u n" using less.prems(2) by simp
      show "length ?h < unat (outputReportLength ?u)"
        using less.prems(3) by (simp add: length_spec_writes)
      show "s + ?c + (unat (outputReportLength ?u) - length ?h) < 65536"
        using False less.prems(5) by (simp add: length_spec_writes)
      show "length payload + (unat (outputReportLength ?u) - length ?h) \<le> 65536"
        using less.prems(5) by (simp add: length_spec_writes)
      show "s + ?c \<le> length payload" using False by simp
      show "\<forall>h p l z. length h = length ?h \<longrightarrow> (\<forall>w \<in> set (cb h p l z). fst w < length ?h)"
        using less.prems(7) by (simp add: length_spec_writes)
    qed
    have sc: "spec_chunks ?c (drop s payload) =
                ?ch # spec_chunks ?c (drop (s + ?c) payload)"
      using False c by (simp add: spec_chunks_more add.commute)
    have ne: "spec_chunks ?c (drop (s + ?c) payload) \<noteq> []"
      by (rule spec_chunks_not_Nil)
    have nz: "(0 :: byte) = 0 \<longleftrightarrow> True" by simp
    show ?thesis
      apply (subst imageSend_loop.simps)
      apply (simp only: Let_def w1 cmp False if_False us u1 sl sum.case aw pad [OF k]
               SetOutputReport_ok [OF less.prems(1,2)] nz if_True w2 ih)
      apply (simp add: sc ne length_spec_writes)
      done
  qed
qed

text \<open>
  The whole send, for a payload whose length plus one chunk stays within 16 bits: it
  returns without error, the reports written are those of the chunks of the payload, the
  chunks put together are the payload, there is one report per chunk and every report has
  exactly the report length.
\<close>

lemma imageSend_pages:
  assumes "isOpen u" and "\<forall>n. \<not> outputFails u n"
    and "length hdr < unat (outputReportLength u)"
    and "length payload + (unat (outputReportLength u) - length hdr) \<le> 65536"
    and "\<forall>h p l z. length h = length hdr \<longrightarrow> (\<forall>w \<in> set (cb h p l z). fst w < length hdr)"
  shows "\<exists>chunks reports.
           chunks = spec_chunks (unat (outputReportLength u) - length hdr) payload \<and>
           reports = spec_reports cb (unat (outputReportLength u)) hdr 0 chunks \<and>
           imageSend u rid hdr payload (Some cb) =
             Some (Inr (u\<lparr>outputReports := outputReports u @ map (Pair rid) reports\<rparr>)) \<and>
           concat chunks = payload \<and>
           length reports = length chunks \<and>
           (\<forall>r \<in> set reports. length r = unat (outputReportLength u))"
proof -
  let ?N = "unat (outputReportLength u)"
  let ?c = "?N - length hdr"
  let ?chunks = "spec_chunks ?c payload"
  let ?reports = "spec_reports cb ?N hdr 0 ?chunks"
  have c: "0 < ?c" using assms(3) by simp
  have N: "?N < 65536"
    using unsigned_less [of "outputReportLength u", where ?'a = nat] by simp
  have s0: "0 + ?c < 65536" using N by simp
  have "imageSend_loop u rid hdr payload cb (of_nat 0) 0 =
          Some (Inr (u\<lparr>outputReports := outputReports u @ map (Pair rid)
            (spec_reports cb ?N hdr 0 (spec_chunks ?c (drop 0 payload)))\<rparr>))"
    by (rule imageSend_loop_pages [OF assms(1,2,3) s0 assms(4) _ assms(5)]) simp
  then have run: "imageSend u rid hdr payload (Some cb) =
             Some (Inr (u\<lparr>outputReports := outputReports u @ map (Pair rid) ?reports\<rparr>))"
    by (simp add: imageSend_def)
  have fits: "\<forall>ch \<in> set ?chunks. length hdr + length ch \<le> ?N"
  proof
    fix ch
    assume "ch \<in> set ?chunks"
    with c have "length ch \<le> ?c" by (rule spec_chunks_bound)
    then show "length hdr + length ch \<le> ?N" using assms(3) by simp
  qed
  have len: "\<forall>r \<in> set ?reports. length r = ?N"
  proof
    fix r
    assume "r \<in> set ?reports"
    with fits show "length r = ?N" by (rule spec_reports_length)
  qed
  have cc: "concat ?chunks = payload" by (rule concat_spec_chunks)
  have lr: "length ?reports = length ?chunks" by (rule length_spec_reports)
  show ?thesis
    using run len cc lr by blast
qed

text \<open>
  With the header layout of the MK.2, byte 2 of a report is the last-page flag: it is 1 in
  the final report and 0 in every other one.
\<close>

lemma mk2_last_flag:
  assumes "length hdr = 7" and "k < length chs"
  shows "spec_reports mk2_updateCb n hdr page chs ! k ! 2 =
           (if k = length chs - 1 then 1 else 0)"
  using assms
proof (induction chs arbitrary: k hdr page)
  case Nil
  then show ?case by simp
next
  case (Cons ch chs)
  show ?case
  proof (cases k)
    case 0
    then show ?thesis
      using Cons.prems(1) by (auto simp: mk2_updateCb_def nth_append)
  next
    case (Suc j)
    let ?h = "spec_writes hdr (mk2_updateCb hdr page (if chs = [] then 1 else 0)
                (of_nat (length ch)))"
    have "length ?h = 7" using Cons.prems(1) by (simp add: length_spec_writes)
    moreover have "j < length chs" using Cons.prems(2) Suc by simp
    ultimately have "spec_reports mk2_updateCb n ?h (page + 1) chs ! j ! 2 =
                       (if j = length chs - 1 then 1 else 0)"
      by (rule Cons.IH)
    then show ?thesis
      using Suc Cons.prems(2) by auto
  qed
qed

end
